theory Spec2Isabelle
  imports Complex_Main
begin

section \<open>Numbers\<close>

text \<open>
  The TypeScript type \<open>number\<close> is modelled in two ways. Timestamps and the durations of a
  signal cycle are finite wherever the program computes them (from \<open>Date.now()\<close> and the
  constant 3), and are of type \<^typ>\<open>real\<close> with exact arithmetic; the one \<open>NaN\<close> that
  arises from them, the remainder by zero, is \<open>None\<close> of \<^typ>\<open>real option\<close>. The numbers
  of the navigation tick (coordinates, distances, speeds, the ETA) are of the type
  \<open>number\<close> below, which keeps \<open>NaN\<close>, \<open>Infinity\<close> and \<open>-Infinity\<close> apart from the
  finite values; their arithmetic is that of the runtime's doubles and is a parameter of
  the model (\<open>double_arith\<close>).
\<close>

definition js_trunc :: "real \<Rightarrow> int" where
  "js_trunc x = (if 0 \<le> x then \<lfloor>x\<rfloor> else \<lceil>x\<rceil>)"

text \<open>
  The \<open>%\<close> operator of JavaScript: the remainder of the division truncated towards zero,
  so the result has the sign of the dividend; the remainder by zero is \<open>NaN\<close>.
\<close>

definition js_rem :: "real \<Rightarrow> real \<Rightarrow> real option" where
  "js_rem a b = (if b = 0 then None else Some (a - b * of_int (js_trunc (a / b))))"

text \<open>
  A double: a finite value, \<open>Infinity\<close>, \<open>-Infinity\<close> or \<open>NaN\<close>. The two zeros are one
  value. A field that an object lacks reads as \<open>undefined\<close>, which every arithmetic
  operation and every comparison treats as \<open>NaN\<close>; it is modelled by \<open>NaN\<close>.
\<close>

datatype number = Fin real | PInf | NInf | NaN

text \<open>The comparison \<open>x < y\<close> of two doubles: false whenever one of them is \<open>NaN\<close>.\<close>

fun n_lt :: "number \<Rightarrow> number \<Rightarrow> bool" where
  "n_lt (Fin x) (Fin y) = (x < y)"
| "n_lt (Fin x) PInf = True"
| "n_lt NInf (Fin y) = True"
| "n_lt NInf PInf = True"
| "n_lt _ _ = False"

text \<open>A result of the exact part of the model as a double.\<close>

definition of_nan :: "real option \<Rightarrow> number" where
  "of_nan v = (case v of None \<Rightarrow> NaN | Some x \<Rightarrow> Fin x)"

text \<open>
  The arithmetic of the runtime on doubles: the four operations with their rounding, the
  four functions of \<open>Math\<close> that the program calls, and \<open>Math.PI\<close>.
\<close>

record double_arith =
  d_add :: "number \<Rightarrow> number \<Rightarrow> number"
  d_sub :: "number \<Rightarrow> number \<Rightarrow> number"
  d_mul :: "number \<Rightarrow> number \<Rightarrow> number"
  d_div :: "number \<Rightarrow> number \<Rightarrow> number"
  d_sin :: "number \<Rightarrow> number"
  d_cos :: "number \<Rightarrow> number"
  d_sqrt :: "number \<Rightarrow> number"
  d_atan2 :: "number \<Rightarrow> number \<Rightarrow> number"
  d_pi :: number

section \<open>Data model (src/types.ts)\<close>

record Coordinate =
  latitude :: number
  longitude :: number

record SignalCycle =
  greenDuration :: real
  yellowDuration :: real
  redDuration :: real
  totalDuration :: real

text \<open>
  \<open>location\<close> is declared \<open>Coordinate\<close>; the recorder fills it with \<open>userLocation!\<close>,
  a non-null assertion that is erased at run time, so the stored value can be \<open>null\<close>
  (\<open>None\<close>).
\<close>

record Signal =
  sig_id :: string
  sig_name :: string
  location :: "Coordinate option"
  cycle :: SignalCycle
  referenceTimestamp :: real
  sig_createdAt :: real

record Route =
  route_id :: string
  route_name :: string
  startLocation :: "Coordinate option"
  endLocation :: "Coordinate option"
  path :: "Coordinate list"
  signals :: "Signal list"
  route_createdAt :: real

datatype SignalPhase = GREEN | YELLOW | RED

datatype Action = MAINTAIN | ACCELERATE | DECELERATE | STOP

record NavigationState =
  currentSpeedKmh :: number
  distanceToSignal :: number
  targetSignalId :: "string option"
  etaSeconds :: number
  recommendedAction :: Action
  targetSpeedKmh :: "number option"
  timeToPhaseChange :: number
  nextPhase :: SignalPhase
  currentPhase :: SignalPhase

section \<open>GeoMath (src/services/locationService.ts)\<close>

definition R :: real where
  "R = 6371000"

text \<open>
  The haversine formula, operation by operation in the arithmetic \<open>D\<close>. \<open>haversineTerm\<close>
  is the value of the constant \<open>a\<close>. Whether it stays within \<open>[0, 1]\<close>, and so whether
  both square roots are numbers, depends on the rounding of \<open>D\<close>.
\<close>

definition haversineTerm :: "double_arith \<Rightarrow> Coordinate \<Rightarrow> Coordinate \<Rightarrow> number" where
  "haversineTerm D coord1 coord2 =
     (let lat1 = d_div D (d_mul D (latitude coord1) (d_pi D)) (Fin 180);
          lat2 = d_div D (d_mul D (latitude coord2) (d_pi D)) (Fin 180);
          deltaLat =
            d_div D (d_mul D (d_sub D (latitude coord2) (latitude coord1)) (d_pi D)) (Fin 180);
          deltaLon =
            d_div D (d_mul D (d_sub D (longitude coord2) (longitude coord1)) (d_pi D)) (Fin 180)
      in d_add D
           (d_mul D (d_sin D (d_div D deltaLat (Fin 2))) (d_sin D (d_div D deltaLat (Fin 2))))
           (d_mul D
              (d_mul D (d_mul D (d_cos D lat1) (d_cos D lat2))
                 (d_sin D (d_div D deltaLon (Fin 2))))
              (d_sin D (d_div D deltaLon (Fin 2)))))"

definition calculateDistance :: "double_arith \<Rightarrow> Coordinate \<Rightarrow> Coordinate \<Rightarrow> number" where
  "calculateDistance D coord1 coord2 =
     (let a = haversineTerm D coord1 coord2;
          c = d_mul D (Fin 2) (d_atan2 D (d_sqrt D a) (d_sqrt D (d_sub D (Fin 1) a)))
      in d_mul D (Fin R) c)"

section \<open>Persistence (storageService)\<close>

text \<open>
  The value under the key \<open>greenwave_routes\<close> of \<open>localStorage\<close>: \<open>None\<close> while the
  key is absent, otherwise the stored list (\<open>JSON.parse\<close> of \<open>JSON.stringify\<close> is taken
  as the identity on routes).
\<close>

type_synonym storage = "Route list option"

definition parseStored :: "storage \<Rightarrow> Route list" where
  "parseStored existingData = (case existingData of None \<Rightarrow> [] | Some rs \<Rightarrow> rs)"

text \<open>\<open>Array.prototype.findIndex\<close>: the first index whose element satisfies \<open>p\<close>, else \<open>-1\<close>.\<close>

fun findIndex :: "('a \<Rightarrow> bool) \<Rightarrow> 'a list \<Rightarrow> int" where
  "findIndex p [] = - 1"
| "findIndex p (x # xs) =
     (if p x then 0 else (let i = findIndex p xs in if i < 0 then - 1 else i + 1))"

definition saveRoute :: "Route \<Rightarrow> storage \<Rightarrow> storage" where
  "saveRoute route st =
     (let routes = parseStored st;
          index = findIndex (\<lambda>r. route_id r = route_id route) routes
      in if 0 \<le> index then Some (routes[nat index := route])
         else Some (routes @ [route]))"

definition getRoutes :: "storage \<Rightarrow> Route list" where
  "getRoutes st = parseStored st"

definition getRouteById :: "string \<Rightarrow> storage \<Rightarrow> Route option" where
  "getRouteById i st = find (\<lambda>r. route_id r = i) (getRoutes st)"

definition deleteRoute :: "string \<Rightarrow> storage \<Rightarrow> storage" where
  "deleteRoute i st =
     (let routes = getRoutes st;
          filtered = filter (\<lambda>r. route_id r \<noteq> i) routes
      in Some filtered)"

datatype storage_op = SaveRoute Route | DeleteRoute string

fun storage_step :: "storage \<Rightarrow> storage_op \<Rightarrow> storage" where
  "storage_step st (SaveRoute r) = saveRoute r st"
| "storage_step st (DeleteRoute i) = deleteRoute i st"

definition storage_run :: "storage_op list \<Rightarrow> storage \<Rightarrow> storage" where
  "storage_run ops st = foldl storage_step st ops"

section \<open>Navigator (src/components/Navigator.tsx)\<close>

subsection \<open>Signal phase at a wall-clock time: lines 100-122 of \<open>updateNavigationLogic\<close>\<close>

text \<open>
  The result is \<open>(currentPhase, timeToChange, nextPhase)\<close>. With a \<open>NaN\<close> cycle position
  both comparisons are false, so the last branch is taken and \<open>timeToChange\<close> is \<open>NaN\<close>.
\<close>

definition phasePredictor :: "Signal \<Rightarrow> real \<Rightarrow> SignalPhase \<times> real option \<times> SignalPhase" where
  "phasePredictor nearestSignal now =
     (let cycleTime = (now - referenceTimestamp nearestSignal) / 1000;
          cyclePos = js_rem cycleTime (totalDuration (cycle nearestSignal));
          green = greenDuration (cycle nearestSignal);
          yellow = yellowDuration (cycle nearestSignal);
          total = totalDuration (cycle nearestSignal)
      in case cyclePos of
           None \<Rightarrow> (RED, None, GREEN)
         | Some pos \<Rightarrow>
             if pos < green then (GREEN, Some (green - pos), YELLOW)
             else if pos < green + yellow then (YELLOW, Some ((green + yellow) - pos), RED)
             else (RED, Some (total - pos), GREEN))"

subsection \<open>Nearest signal: the \<open>forEach\<close> of lines 84-93\<close>

text \<open>
  The accumulator is \<open>(minDist, nearestSignal)\<close>. Reading \<open>latitude\<close> of a \<open>null\<close>
  location throws a \<open>TypeError\<close>: the result \<open>None\<close>. A distance that is \<open>NaN\<close> is
  less than nothing and leaves the accumulator as it is.
\<close>

fun nearestScan ::
  "double_arith \<Rightarrow> Coordinate \<Rightarrow> Signal list \<Rightarrow> number \<times> Signal \<Rightarrow> (number \<times> Signal) option" where
  "nearestScan D userLoc [] acc = Some acc"
| "nearestScan D userLoc (sig # sigs) (minDist, nearestSignal) =
     (case location sig of
        None \<Rightarrow> None
      | Some loc \<Rightarrow>
          (let d = calculateDistance D userLoc loc
           in if n_lt d minDist
              then nearestScan D userLoc sigs (d, sig)
              else nearestScan D userLoc sigs (minDist, nearestSignal)))"

subsection \<open>The ETA: lines 96-97\<close>

text \<open>\<open>navState\<close> is the state that the closure of the tick holds.\<close>

definition etaOf :: "double_arith \<Rightarrow> NavigationState \<Rightarrow> number \<Rightarrow> number" where
  "etaOf D navState dist_m =
     (let speedMps = d_div D (currentSpeedKmh navState) (Fin 3.6)
      in if n_lt (Fin 0) speedMps then d_div D dist_m speedMps else Fin 999)"

subsection \<open>The recommendation: lines 124-147\<close>

text \<open>\<open>dist_m\<close> is the source's \<open>dist\<close>, \<open>targetSpeed = undefined\<close> is \<open>None\<close>.\<close>

definition recommend ::
  "double_arith \<Rightarrow> number \<Rightarrow> number \<Rightarrow> SignalPhase \<Rightarrow> number \<Rightarrow> Action \<times> number option" where
  "recommend D dist_m eta phase timeToChange =
     (if n_lt dist_m (Fin 20) then ((if phase = RED then STOP else MAINTAIN), None)
      else if phase = GREEN then
        (if n_lt eta timeToChange then (MAINTAIN, None) else (DECELERATE, None))
      else if phase = RED then
        (if n_lt eta timeToChange
         then (let idealSpeedMps = d_div D dist_m timeToChange
               in (DECELERATE, Some (d_mul D idealSpeedMps (Fin 3.6))))
         else (MAINTAIN, None))
      else (MAINTAIN, None))"

subsection \<open>One navigation tick: \<open>updateNavigationLogic\<close>\<close>

text \<open>
  The ref \<open>lastPosition\<close>. \<open>handlePositionUpdate\<close> fills \<open>lat\<close> and \<open>lng\<close> from the
  fields of these names of the object it is given; where that object has none (the
  application passes one with \<open>latitude\<close> and \<open>longitude\<close>) both are \<open>undefined\<close>.
\<close>

record LastPosition =
  lat :: number
  lng :: number
  time :: real

text \<open>The coordinate \<open>userLoc\<close> that the tick builds from the ref (line 80).\<close>

definition userLocOf :: "LastPosition \<Rightarrow> Coordinate" where
  "userLocOf lp = \<lparr>latitude = lat lp, longitude = lng lp\<rparr>"

datatype tick_result = NoUpdate | TypeError | Update NavigationState

text \<open>
  \<open>route\<close> is the component's state (\<open>null\<close> until loaded) and \<open>lastPosition\<close> the ref
  written by \<open>handlePositionUpdate\<close>. \<open>navState\<close> is the state in the closure of the
  tick: the interval is started by an effect that depends on \<open>route\<close> and \<open>userLocation\<close>
  only, so it keeps the state of the render that started it, while \<open>setNavState\<close>
  applies the update to the current state \<open>prev\<close>. \<open>now\<close> is the value of \<open>Date.now()\<close>.
  When no distance is less than the initial \<open>Infinity\<close>, the tick goes on with the
  distance \<open>Infinity\<close> and the first signal.
\<close>

definition updateNavigationLogic ::
  "double_arith \<Rightarrow> Route option \<Rightarrow> LastPosition option \<Rightarrow> NavigationState \<Rightarrow> real \<Rightarrow>
     NavigationState \<Rightarrow> tick_result" where
  "updateNavigationLogic D route lastPosition navState now prev =
     (case route of
        None \<Rightarrow> NoUpdate
      | Some r \<Rightarrow>
     (case signals r of
        [] \<Rightarrow> NoUpdate
      | sig0 # _ \<Rightarrow>
     (case lastPosition of
        None \<Rightarrow> NoUpdate
      | Some lp \<Rightarrow>
     (let userLoc = userLocOf lp
      in case nearestScan D userLoc (signals r) (PInf, sig0) of
        None \<Rightarrow> TypeError
      | Some (minDist, nearestSignal) \<Rightarrow>
          (let dist_m = minDist;
               eta = etaOf D navState dist_m;
               (phase, timeToChange, next) = phasePredictor nearestSignal now;
               (action, targetSpeed) = recommend D dist_m eta phase (of_nan timeToChange)
           in Update (prev
                \<lparr>distanceToSignal := dist_m,
                 etaSeconds := eta,
                 currentPhase := phase,
                 timeToPhaseChange := of_nan timeToChange,
                 recommendedAction := action,
                 targetSpeedKmh := targetSpeed,
                 nextPhase := next\<rparr>))))))"

section \<open>Cycle recorder (src/components/SignalRecorder.tsx)\<close>

datatype UiPhase = INIT_ROUTE | DRIVING | RECORDING_SIGNAL | SAVING

text \<open>The recorder's own \<open>SignalPhase\<close> type (a string union local to the component).\<close>

datatype RecorderPhase = WAITING_GREEN | REC_GREEN | REC_YELLOW | REC_RED

record CycleData =
  greenStart :: real
  greenEnd :: real
  redStart :: real

text \<open>The part of the component's state that the gesture handlers read and write.\<close>

record Recorder =
  uiPhase :: UiPhase
  recordedSignals :: "Signal list"
  signalPhase :: RecorderPhase
  configYellowDuration :: real
  cycleData :: CycleData

definition initialRecorder :: Recorder where
  "initialRecorder =
     \<lparr>uiPhase = INIT_ROUTE, recordedSignals = [], signalPhase = WAITING_GREEN,
      configYellowDuration = 3,
      cycleData = \<lparr>greenStart = 0, greenEnd = 0, redStart = 0\<rparr>\<rparr>"

definition digit_char :: "nat \<Rightarrow> char" where
  "digit_char d = ''0123456789'' ! d"

text \<open>The decimal rendering of a number in a template string.\<close>

fun show_nat :: "nat \<Rightarrow> string" where
  "show_nat n = (if n < 10 then [digit_char n] else show_nat (n div 10) @ [digit_char (n mod 10)])"

declare show_nat.simps [simp del]

text \<open>
  \<open>now\<close> and \<open>createdNow\<close> are the two readings of \<open>Date.now()\<close>, \<open>uuid\<close> the value of
  \<open>crypto.randomUUID()\<close>, \<open>userLocation\<close> the component's prop.
\<close>

definition handleSignalPress ::
  "real \<Rightarrow> real \<Rightarrow> string \<Rightarrow> Coordinate option \<Rightarrow> Recorder \<Rightarrow> Recorder" where
  "handleSignalPress now createdNow uuid userLocation rec =
     (if signalPhase rec = WAITING_GREEN then
        rec\<lparr>signalPhase := REC_GREEN,
            cycleData := (cycleData rec)\<lparr>greenStart := now\<rparr>\<rparr>
      else if signalPhase rec = REC_RED then
        (let red = (now - redStart (cycleData rec)) / 1000;
             green = (greenEnd (cycleData rec) - greenStart (cycleData rec)) / 1000;
             yellow = configYellowDuration rec;
             newSignal =
               \<lparr>sig_id = uuid,
                sig_name = ''Signal #'' @ show_nat (length (recordedSignals rec) + 1),
                location = userLocation,
                cycle = \<lparr>greenDuration = green, yellowDuration = yellow,
                         redDuration = red, totalDuration = green + yellow + red\<rparr>,
                referenceTimestamp = greenStart (cycleData rec),
                sig_createdAt = createdNow\<rparr>
         in rec\<lparr>recordedSignals := recordedSignals rec @ [newSignal],
                uiPhase := DRIVING,
                signalPhase := WAITING_GREEN\<rparr>)
      else rec)"

text \<open>
  The second component is the delay in milliseconds of the timer that the handler starts
  with \<open>setTimeout\<close>, if it starts one.
\<close>

definition handleSignalRelease :: "real \<Rightarrow> Recorder \<Rightarrow> Recorder \<times> real option" where
  "handleSignalRelease now rec =
     (if signalPhase rec = REC_GREEN then
        (rec\<lparr>signalPhase := REC_YELLOW,
             cycleData := (cycleData rec)\<lparr>greenEnd := now\<rparr>\<rparr>,
         Some (configYellowDuration rec * 1000))
      else (rec, None))"

text \<open>The callback of that timer, run at time \<open>now\<close>.\<close>

definition yellowTimerFired :: "real \<Rightarrow> Recorder \<Rightarrow> Recorder" where
  "yellowTimerFired now rec =
     rec\<lparr>signalPhase := REC_RED,
         cycleData := (cycleData rec)\<lparr>redStart := now\<rparr>\<rparr>"

datatype recorder_event =
    Press real real string "Coordinate option"
  | Release real
  | TimerFired real

fun recorder_step :: "Recorder \<Rightarrow> recorder_event \<Rightarrow> Recorder" where
  "recorder_step rec (Press now createdNow uuid userLocation) =
     handleSignalPress now createdNow uuid userLocation rec"
| "recorder_step rec (Release now) = fst (handleSignalRelease now rec)"
| "recorder_step rec (TimerFired now) = yellowTimerFired now rec"

definition recorder_run :: "recorder_event list \<Rightarrow> Recorder \<Rightarrow> Recorder" where
  "recorder_run evs rec = foldl recorder_step rec evs"

section \<open>The specification's side\<close>

text \<open>The invariant that the specification asks of a \<open>SignalCycle\<close>.\<close>

definition valid_cycle :: "SignalCycle \<Rightarrow> bool" where
  "valid_cycle c \<longleftrightarrow>
     0 < greenDuration c \<and> 0 < yellowDuration c \<and> 0 < redDuration c \<and>
     totalDuration c = greenDuration c + yellowDuration c + redDuration c"

text \<open>
  The elapsed time wrapped into \<open>[0, period)\<close>, as the specification words it: the
  remainder of the floored division.
\<close>

definition wrap_elapsed :: "real \<Rightarrow> real \<Rightarrow> real" where
  "wrap_elapsed elapsed period = elapsed - period * of_int \<lfloor>elapsed / period\<rfloor>"

text \<open>
  The phase predictor as the specification words it (section 4.3), written from the
  specification and not from the code, to be compared with \<^const>\<open>phasePredictor\<close>.
\<close>

definition spec_phasePredictor :: "Signal \<Rightarrow> real \<Rightarrow> SignalPhase \<times> real \<times> SignalPhase" where
  "spec_phasePredictor s now =
     (let e = wrap_elapsed ((now - referenceTimestamp s) / 1000) (totalDuration (cycle s))
      in if e < greenDuration (cycle s) then (GREEN, greenDuration (cycle s) - e, YELLOW)
         else if e < greenDuration (cycle s) + yellowDuration (cycle s)
         then (YELLOW, (greenDuration (cycle s) + yellowDuration (cycle s)) - e, RED)
         else (RED, totalDuration (cycle s) - e, GREEN))"

section \<open>An arithmetic without rounding\<close>

text \<open>
  One arithmetic for \<open>double_arith\<close>, used in the examples: on finite values the
  operations of the reals, at the infinities and \<open>NaN\<close> the results of the doubles. A
  zero divisor counts as \<open>+0\<close>.
\<close>

fun exact_add :: "number \<Rightarrow> number \<Rightarrow> number" where
  "exact_add (Fin x) (Fin y) = Fin (x + y)"
| "exact_add NaN _ = NaN"
| "exact_add _ NaN = NaN"
| "exact_add PInf NInf = NaN"
| "exact_add NInf PInf = NaN"
| "exact_add PInf _ = PInf"
| "exact_add _ PInf = PInf"
| "exact_add NInf _ = NInf"
| "exact_add _ NInf = NInf"

fun exact_neg :: "number \<Rightarrow> number" where
  "exact_neg (Fin x) = Fin (- x)"
| "exact_neg PInf = NInf"
| "exact_neg NInf = PInf"
| "exact_neg NaN = NaN"

definition exact_sub :: "number \<Rightarrow> number \<Rightarrow> number" where
  "exact_sub a b = exact_add a (exact_neg b)"

fun exact_mul :: "number \<Rightarrow> number \<Rightarrow> number" where
  "exact_mul (Fin x) (Fin y) = Fin (x * y)"
| "exact_mul NaN _ = NaN"
| "exact_mul _ NaN = NaN"
| "exact_mul (Fin x) PInf = (if x = 0 then NaN else if 0 < x then PInf else NInf)"
| "exact_mul (Fin x) NInf = (if x = 0 then NaN else if 0 < x then NInf else PInf)"
| "exact_mul PInf (Fin y) = (if y = 0 then NaN else if 0 < y then PInf else NInf)"
| "exact_mul NInf (Fin y) = (if y = 0 then NaN else if 0 < y then NInf else PInf)"
| "exact_mul PInf PInf = PInf"
| "exact_mul PInf NInf = NInf"
| "exact_mul NInf PInf = NInf"
| "exact_mul NInf NInf = PInf"

fun exact_div :: "number \<Rightarrow> number \<Rightarrow> number" where
  "exact_div (Fin x) (Fin y) =
     (if y = 0 then (if x = 0 then NaN else if 0 < x then PInf else NInf) else Fin (x / y))"
| "exact_div NaN _ = NaN"
| "exact_div _ NaN = NaN"
| "exact_div (Fin x) PInf = Fin 0"
| "exact_div (Fin x) NInf = Fin 0"
| "exact_div PInf (Fin y) = (if 0 \<le> y then PInf else NInf)"
| "exact_div NInf (Fin y) = (if 0 \<le> y then NInf else PInf)"
| "exact_div _ _ = NaN"

fun exact_sin :: "number \<Rightarrow> number" where
  "exact_sin (Fin x) = Fin (sin x)"
| "exact_sin _ = NaN"

fun exact_cos :: "number \<Rightarrow> number" where
  "exact_cos (Fin x) = Fin (cos x)"
| "exact_cos _ = NaN"

fun exact_sqrt :: "number \<Rightarrow> number" where
  "exact_sqrt (Fin x) = (if x < 0 then NaN else Fin (sqrt x))"
| "exact_sqrt PInf = PInf"
| "exact_sqrt _ = NaN"

text \<open>\<open>Math.atan2(y, x)\<close> on finite arguments.\<close>

definition atan2 :: "real \<Rightarrow> real \<Rightarrow> real" where
  "atan2 y x =
     (if 0 < x then arctan (y / x)
      else if x < 0 then (if 0 \<le> y then arctan (y / x) + pi else arctan (y / x) - pi)
      else if 0 < y then pi / 2
      else if y < 0 then - (pi / 2)
      else 0)"

fun exact_atan2 :: "number \<Rightarrow> number \<Rightarrow> number" where
  "exact_atan2 (Fin y) (Fin x) = Fin (atan2 y x)"
| "exact_atan2 NaN _ = NaN"
| "exact_atan2 _ NaN = NaN"
| "exact_atan2 (Fin y) PInf = Fin 0"
| "exact_atan2 (Fin y) NInf = Fin (if 0 \<le> y then pi else - pi)"
| "exact_atan2 PInf (Fin x) = Fin (pi / 2)"
| "exact_atan2 NInf (Fin x) = Fin (- (pi / 2))"
| "exact_atan2 PInf PInf = Fin (pi / 4)"
| "exact_atan2 PInf NInf = Fin (3 * pi / 4)"
| "exact_atan2 NInf PInf = Fin (- (pi / 4))"
| "exact_atan2 NInf NInf = Fin (- (3 * pi / 4))"

definition exact_arith :: double_arith where
  "exact_arith =
     \<lparr>d_add = exact_add, d_sub = exact_sub, d_mul = exact_mul, d_div = exact_div,
      d_sin = exact_sin, d_cos = exact_cos, d_sqrt = exact_sqrt, d_atan2 = exact_atan2,
      d_pi = Fin pi\<rparr>"

text \<open>
  The haversine term and the distance over the reals, of the points \<open>(lat1, lon1)\<close> and
  \<open>(lat2, lon2)\<close> in degrees: what \<open>calculateDistance\<close> computes without rounding.
\<close>

definition haversine_a :: "real \<Rightarrow> real \<Rightarrow> real \<Rightarrow> real \<Rightarrow> real" where
  "haversine_a la1 lo1 la2 lo2 =
     (let lat1 = (la1 * pi) / 180;
          lat2 = (la2 * pi) / 180;
          deltaLat = ((la2 - la1) * pi) / 180;
          deltaLon = ((lo2 - lo1) * pi) / 180
      in sin (deltaLat / 2) * sin (deltaLat / 2) +
         cos lat1 * cos lat2 * sin (deltaLon / 2) * sin (deltaLon / 2))"

definition exact_distance :: "real \<Rightarrow> real \<Rightarrow> real \<Rightarrow> real \<Rightarrow> real" where
  "exact_distance la1 lo1 la2 lo2 =
     (let a = haversine_a la1 lo1 la2 lo2;
          c = 2 * atan2 (sqrt a) (sqrt (1 - a))
      in R * c)"

text \<open>The comparison \<open>x == y\<close> of two doubles: false whenever one of them is \<open>NaN\<close>.\<close>

fun n_eq :: "number \<Rightarrow> number \<Rightarrow> bool" where
  "n_eq NaN _ = False"
| "n_eq _ NaN = False"
| "n_eq a b = (a = b)"

section \<open>The nearest signal\<close>

text \<open>
  \<open>sg\<close> is a signal of the list at the distance \<open>d\<close>, which is a number below
  \<open>Infinity\<close>, and no signal of the list is nearer.
\<close>

definition nearest_signal ::
  "double_arith \<Rightarrow> Coordinate \<Rightarrow> Signal list \<Rightarrow> number \<Rightarrow> Signal \<Rightarrow> bool" where
  "nearest_signal D userLoc sigs d sg \<longleftrightarrow>
     sg \<in> set sigs \<and> n_lt d PInf \<and>
     (\<exists>loc. location sg = Some loc \<and> d = calculateDistance D userLoc loc) \<and>
     (\<forall>s\<in>set sigs. \<forall>loc. location s = Some loc \<longrightarrow>
        \<not> n_lt (calculateDistance D userLoc loc) d)"

text \<open>No signal of the list has a distance below \<open>Infinity\<close>.\<close>

definition none_in_reach :: "double_arith \<Rightarrow> Coordinate \<Rightarrow> Signal list \<Rightarrow> bool" where
  "none_in_reach D userLoc sigs \<longleftrightarrow>
     (\<forall>s\<in>set sigs. \<forall>loc. location s = Some loc \<longrightarrow>
        \<not> n_lt (calculateDistance D userLoc loc) PInf)"

text \<open>
  The signal and the distance that a tick works with: a nearest signal, or, when no
  distance is below \<open>Infinity\<close>, the first signal of the list with the distance
  \<open>Infinity\<close>.
\<close>

definition tick_target ::
  "double_arith \<Rightarrow> Coordinate \<Rightarrow> Signal list \<Rightarrow> number \<Rightarrow> Signal \<Rightarrow> bool" where
  "tick_target D userLoc sigs d sg \<longleftrightarrow>
     nearest_signal D userLoc sigs d sg \<or>
     (d = PInf \<and> sigs \<noteq> [] \<and> sg = hd sigs \<and> none_in_reach D userLoc sigs)"

section \<open>Example values\<close>

definition example_cycle :: SignalCycle where
  "example_cycle =
     \<lparr>greenDuration = 30, yellowDuration = 3, redDuration = 27, totalDuration = 60\<rparr>"

text \<open>The cycle of the specification's examples, anchored at the epoch time \<open>T\<close> (ms).\<close>

definition example_signal :: "real \<Rightarrow> Signal" where
  "example_signal T =
     \<lparr>sig_id = ''s1'', sig_name = ''Signal #1'',
      location = Some \<lparr>latitude = Fin 0, longitude = Fin 0\<rparr>,
      cycle = example_cycle, referenceTimestamp = T, sig_createdAt = T\<rparr>"

text \<open>A route with no path and no signals, for the storage examples.\<close>

definition example_route :: "string \<Rightarrow> string \<Rightarrow> Route" where
  "example_route i n =
     \<lparr>route_id = i, route_name = n, startLocation = None, endLocation = None,
      path = [], signals = [], route_createdAt = 0\<rparr>"

text \<open>The initial \<open>navState\<close> of the component (the argument of \<open>useState\<close>).\<close>

definition initialNavState :: NavigationState where
  "initialNavState =
     \<lparr>currentSpeedKmh = Fin 0, distanceToSignal = Fin 0, targetSignalId = None,
      etaSeconds = Fin 0, recommendedAction = MAINTAIN, targetSpeedKmh = None,
      timeToPhaseChange = Fin 0, nextPhase = GREEN, currentPhase = GREEN\<rparr>"

text \<open>The state of a vehicle moving at 54 km/h, which is 15 m/s.\<close>

definition movingNavState :: NavigationState where
  "movingNavState = initialNavState\<lparr>currentSpeedKmh := Fin 54\<rparr>"

text \<open>A route with the example signal, which stands at latitude 0, longitude 0.\<close>

definition example_nav_route :: Route where
  "example_nav_route =
     \<lparr>route_id = ''r1'', route_name = ''Work Commute'', startLocation = None,
      endLocation = None, path = [], signals = [example_signal 0], route_createdAt = 0\<rparr>"

definition at_signal :: LastPosition where
  "at_signal = \<lparr>lat = Fin 0, lng = Fin 0, time = 0\<rparr>"



text \<open>A position written from an object without \<open>lat\<close> and \<open>lng\<close>.\<close>

definition unread_position :: LastPosition where
  "unread_position = \<lparr>lat = NaN, lng = NaN, time = 0\<rparr>"

text \<open>The recorder while the recording overlay is shown.\<close>

definition recording :: Recorder where
  "recording = initialRecorder\<lparr>uiPhase := RECORDING_SIGNAL\<rparr>"

text \<open>
  The recording scenario of the specification, in milliseconds: press at 0, release at
  28 s, the yellow timer at 31 s, press at 58 s.
\<close>

definition scenario_events :: "recorder_event list" where
  "scenario_events =
     [Press 0 0 ''u1'' (Some \<lparr>latitude = Fin 35, longitude = Fin 139\<rparr>),
      Release 28000,
      TimerFired 31000,
      Press 58000 58000 ''u2'' (Some \<lparr>latitude = Fin 35, longitude = Fin 139\<rparr>)]"

text \<open>
  Press and release within the same millisecond, and the closing press in the
  millisecond in which the yellow timer fires.
\<close>

definition zero_green_events :: "recorder_event list" where
  "zero_green_events =
     [Press 1000 1000 ''u1'' None, Release 1000, TimerFired 4000, Press 4000 4000 ''u2'' None]"

section \<open>Invariants\<close>

definition ids_unique :: "storage \<Rightarrow> bool" where
  "ids_unique st \<longleftrightarrow> distinct (map route_id (getRoutes st))"

definition cycle_sum_ok :: "Signal \<Rightarrow> bool" where
  "cycle_sum_ok s \<longleftrightarrow>
     totalDuration (cycle s) =
       greenDuration (cycle s) + yellowDuration (cycle s) + redDuration (cycle s)"

section \<open>Properties of the phase computation\<close>

lemma wrap_elapsed_range:
  assumes "0 < period"
  shows "0 \<le> wrap_elapsed e period \<and> wrap_elapsed e period < period"
proof -
  have 1: "of_int \<lfloor>e / period\<rfloor> \<le> e / period" by (rule of_int_floor_le)
  have 2: "e / period < of_int \<lfloor>e / period\<rfloor> + 1" by linarith
  have 5: "period * (e / period) = e" using assms by simp
  have "period * of_int \<lfloor>e / period\<rfloor> \<le> period * (e / period)"
    using 1 by (rule mult_left_mono) (use assms in simp)
  then have 3: "period * of_int \<lfloor>e / period\<rfloor> \<le> e" by (simp only: 5)
  have "period * (e / period) < period * (of_int \<lfloor>e / period\<rfloor> + 1)"
    using 2 assms by (rule mult_strict_left_mono)
  then have 4: "e < period * (of_int \<lfloor>e / period\<rfloor> + 1)" by (simp only: 5)
  from 3 4 show ?thesis by (simp add: wrap_elapsed_def algebra_simps)
qed

text \<open>For a dividend that is not negative, \<open>%\<close> is the wrap of the specification.\<close>

lemma js_rem_nonneg:
  assumes "0 \<le> a" "0 < b"
  shows "js_rem a b = Some (wrap_elapsed a b)"
  using assms by (simp add: js_rem_def js_trunc_def wrap_elapsed_def)

lemma js_trunc_small: "- 1 < x \<Longrightarrow> x < 1 \<Longrightarrow> js_trunc x = 0"
  unfolding js_trunc_def by (simp add: floor_eq_iff ceiling_eq_iff)

lemma js_rem_small: "b \<noteq> 0 \<Longrightarrow> - 1 < a / b \<Longrightarrow> a / b < 1 \<Longrightarrow> js_rem a b = Some a"
  by (simp add: js_rem_def js_trunc_small)

text \<open>
  From the reference timestamp on, the code computes what the specification describes.
\<close>

lemma phasePredictor_refines_spec:
  assumes "0 < totalDuration (cycle s)" "referenceTimestamp s \<le> now"
  shows "phasePredictor s now =
     (case spec_phasePredictor s now of (p, t, n) \<Rightarrow> (p, Some t, n))"
proof -
  have "0 \<le> (now - referenceTimestamp s) / 1000" using assms(2) by simp
  then have "js_rem ((now - referenceTimestamp s) / 1000) (totalDuration (cycle s))
       = Some (wrap_elapsed ((now - referenceTimestamp s) / 1000) (totalDuration (cycle s)))"
    using assms(1) by (rule js_rem_nonneg)
  then show ?thesis
    by (simp add: phasePredictor_def spec_phasePredictor_def Let_def)
qed

lemma spec_phase_bounds:
  assumes "valid_cycle (cycle s)"
  shows "0 < fst (snd (spec_phasePredictor s now)) \<and>
         fst (snd (spec_phasePredictor s now)) \<le> totalDuration (cycle s)"
proof -
  have tot: "0 < totalDuration (cycle s)" using assms by (simp add: valid_cycle_def)
  note r = wrap_elapsed_range [OF tot, of "(now - referenceTimestamp s) / 1000"]
  show ?thesis using assms r
    by (auto simp: spec_phasePredictor_def Let_def valid_cycle_def)
qed

text \<open>
  From the reference timestamp on, the time to the next change lies in
  \<open>(0, totalDuration]\<close>.
\<close>

lemma phase_bounds_after_reference:
  assumes "valid_cycle (cycle s)" "referenceTimestamp s \<le> now"
  shows "\<exists>t. fst (snd (phasePredictor s now)) = Some t \<and> 0 < t \<and> t \<le> totalDuration (cycle s)"
proof -
  have tot: "0 < totalDuration (cycle s)" using assms by (simp add: valid_cycle_def)
  show ?thesis
    using spec_phase_bounds [OF assms(1), of now]
    by (cases "spec_phasePredictor s now")
       (simp add: phasePredictor_refines_spec [OF tot assms(2)])
qed

text \<open>
  The four evaluations of the specification's example (times in milliseconds, as
  \<open>Date.now()\<close> gives them).
\<close>

lemma phasePredictor_examples:
  "phasePredictor (example_signal T) (T + 0) = (GREEN, Some 30, YELLOW)"
  "phasePredictor (example_signal T) (T + 30000) = (YELLOW, Some 3, RED)"
  "phasePredictor (example_signal T) (T + 33000) = (RED, Some 27, GREEN)"
  "phasePredictor (example_signal T) (T + 60000) = (GREEN, Some 30, YELLOW)"
  by (simp_all add: phasePredictor_def example_signal_def example_cycle_def
        js_rem_def js_trunc_def)

text \<open>
  C1. The claim asks for a time to the next change in \<open>(0, totalDuration]\<close> at every time,
  also before the reference timestamp. The remainder \<open>%\<close> keeps the sign of a negative
  elapsed time: 59 seconds before the reference timestamp of the valid cycle 30/3/27 the
  cycle position is \<open>-59\<close>, outside \<open>[0, 60)\<close>, and the time to the next change is 89
  seconds, more than the cycle's 60.
\<close>

theorem phase_before_reference_exceeds_cycle:
  "valid_cycle (cycle (example_signal 1700000000000)) \<and>
   js_rem ((1700000000000 - 59000 - referenceTimestamp (example_signal 1700000000000)) / 1000)
     (totalDuration (cycle (example_signal 1700000000000))) = Some (- 59) \<and>
   phasePredictor (example_signal 1700000000000) (1700000000000 - 59000)
     = (GREEN, Some 89, YELLOW) \<and>
   totalDuration (cycle (example_signal 1700000000000)) < 89"
  by (simp add: phasePredictor_def example_signal_def example_cycle_def valid_cycle_def
        js_rem_small)

text \<open>
  C3. One second before the reference timestamp the elapsed time wrapped into \<open>[0, 60)\<close>
  is 59, for which the claim gives RED with 1 second left; the code's cycle position is
  \<open>-1\<close> and it answers GREEN with 31 seconds left.
\<close>

theorem phase_before_reference_differs_from_spec:
  "wrap_elapsed ((1700000000000 - 1000 - referenceTimestamp (example_signal 1700000000000)) / 1000)
     (totalDuration (cycle (example_signal 1700000000000))) = 59 \<and>
   spec_phasePredictor (example_signal 1700000000000) (1700000000000 - 1000) = (RED, 1, GREEN) \<and>
   phasePredictor (example_signal 1700000000000) (1700000000000 - 1000)
     = (GREEN, Some 31, YELLOW)"
proof -
  have "\<lfloor>- (1 / 60 :: real)\<rfloor> = - 1" by (simp add: floor_eq_iff)
  then show ?thesis
    by (simp add: spec_phasePredictor_def phasePredictor_def example_signal_def
          example_cycle_def wrap_elapsed_def js_rem_small)
qed

section \<open>Properties of the route store\<close>

lemma findIndex_ge_minus_one: "- 1 \<le> findIndex p xs"
  by (induction xs) (auto simp: Let_def)

lemma findIndex_neg_iff: "findIndex p xs < 0 \<longleftrightarrow> (\<forall>x\<in>set xs. \<not> p x)"
  using findIndex_ge_minus_one [of p]
  by (induction xs) (auto simp: Let_def)

lemma findIndex_found:
  "0 \<le> findIndex p xs \<Longrightarrow> nat (findIndex p xs) < length xs \<and> p (xs ! nat (findIndex p xs))"
proof (induction xs)
  case Nil
  then show ?case by simp
next
  case (Cons x xs)
  show ?case
  proof (cases "p x")
    case True
    then show ?thesis by simp
  next
    case False
    with Cons.prems have nn: "0 \<le> findIndex p xs"
      by (simp add: Let_def split: if_splits)
    from Cons.IH [OF nn] False nn show ?thesis
      by (simp add: Let_def nat_add_distrib)
  qed
qed

lemma map_update_same_key:
  "i < length xs \<Longrightarrow> f (xs ! i) = f r \<Longrightarrow> map f (xs[i := r]) = map f xs"
  by (simp add: map_update list_update_same_conv)

text \<open>With unique keys, overwriting the entry found is replacing the entry of that key.\<close>

lemma update_is_map:
  assumes "distinct (map f xs)" "i < length xs" "f (xs ! i) = k"
  shows "xs[i := r] = map (\<lambda>x. if f x = k then r else x) xs"
proof (rule nth_equalityI)
  show "length (xs[i := r]) = length (map (\<lambda>x. if f x = k then r else x) xs)" by simp
next
  fix j
  assume "j < length (xs[i := r])"
  then have j: "j < length xs" by simp
  show "xs[i := r] ! j = map (\<lambda>x. if f x = k then r else x) xs ! j"
  proof (cases "j = i")
    case True
    then show ?thesis using assms j by simp
  next
    case False
    have "(map f xs ! j = map f xs ! i) = (j = i)"
      by (rule nth_eq_iff_index_eq) (use assms j in simp_all)
    with False have "map f xs ! j \<noteq> map f xs ! i" by simp
    then have "f (xs ! j) \<noteq> k" using j assms(2,3) by simp
    then show ?thesis using j False by simp
  qed
qed

lemma saveRoute_index:
  assumes "route_id r \<in> route_id ` set (getRoutes st)"
  shows "0 \<le> findIndex (\<lambda>x. route_id x = route_id r) (parseStored st)"
proof -
  from assms have "\<not> findIndex (\<lambda>x. route_id x = route_id r) (parseStored st) < 0"
    by (auto simp: findIndex_neg_iff getRoutes_def)
  then show ?thesis by simp
qed

lemma saveRoute_existing:
  assumes "route_id r \<in> route_id ` set (getRoutes st)"
  shows "length (getRoutes (saveRoute r st)) = length (getRoutes st) \<and>
         r \<in> set (getRoutes (saveRoute r st)) \<and>
         map route_id (getRoutes (saveRoute r st)) = map route_id (getRoutes st)"
proof -
  let ?p = "\<lambda>x. route_id x = route_id r"
  let ?xs = "parseStored st"
  note nn = saveRoute_index [OF assms]
  note f = findIndex_found [OF nn]
  have eq: "getRoutes (saveRoute r st) = ?xs[nat (findIndex ?p ?xs) := r]"
    using nn by (simp add: saveRoute_def getRoutes_def parseStored_def Let_def)
  show ?thesis
    using f unfolding eq by (simp add: getRoutes_def map_update_same_key set_update_memI)
qed

lemma saveRoute_replaces:
  assumes "ids_unique st" "route_id r \<in> route_id ` set (getRoutes st)"
  shows "getRoutes (saveRoute r st) =
           map (\<lambda>x. if route_id x = route_id r then r else x) (getRoutes st)"
proof -
  let ?p = "\<lambda>x. route_id x = route_id r"
  let ?xs = "parseStored st"
  note nn = saveRoute_index [OF assms(2)]
  note f = findIndex_found [OF nn]
  have eq: "getRoutes (saveRoute r st) = ?xs[nat (findIndex ?p ?xs) := r]"
    using nn by (simp add: saveRoute_def getRoutes_def parseStored_def Let_def)
  have d: "distinct (map route_id ?xs)"
    using assms(1) by (simp add: ids_unique_def getRoutes_def)
  have "?xs[nat (findIndex ?p ?xs) := r] = map (\<lambda>x. if route_id x = route_id r then r else x) ?xs"
    by (rule update_is_map [OF d]) (use f in simp_all)
  then show ?thesis
    unfolding eq by (simp add: getRoutes_def)
qed

lemma saveRoute_new:
  assumes "route_id r \<notin> route_id ` set (getRoutes st)"
  shows "getRoutes (saveRoute r st) = getRoutes st @ [r]"
proof -
  have "\<forall>x\<in>set (parseStored st). route_id x \<noteq> route_id r"
  proof
    fix x
    assume "x \<in> set (parseStored st)"
    then have "route_id x \<in> route_id ` set (getRoutes st)"
      by (simp add: getRoutes_def)
    with assms show "route_id x \<noteq> route_id r" by auto
  qed
  then have "findIndex (\<lambda>x. route_id x = route_id r) (parseStored st) < 0"
    by (simp add: findIndex_neg_iff)
  then show ?thesis
    by (simp add: saveRoute_def getRoutes_def parseStored_def Let_def)
qed

lemma deleteRoute_filter:
  "getRoutes (deleteRoute i st) = filter (\<lambda>x. route_id x \<noteq> i) (getRoutes st)"
  by (simp add: deleteRoute_def getRoutes_def parseStored_def Let_def)

lemma saveRoute_ids_unique: "ids_unique st \<Longrightarrow> ids_unique (saveRoute r st)"
proof (cases "route_id r \<in> route_id ` set (getRoutes st)")
  case True
  assume "ids_unique st"
  then show ?thesis using saveRoute_existing [OF True] by (simp add: ids_unique_def)
next
  case False
  assume "ids_unique st"
  then show ?thesis using False by (simp add: saveRoute_new [OF False] ids_unique_def)
qed

lemma deleteRoute_ids_unique: "ids_unique st \<Longrightarrow> ids_unique (deleteRoute i st)"
  by (simp add: ids_unique_def deleteRoute_filter distinct_map_filter)

lemma storage_run_ids_unique: "ids_unique st \<Longrightarrow> ids_unique (storage_run ops st)"
  unfolding storage_run_def
proof (induction ops arbitrary: st)
  case Nil
  then show ?case by simp
next
  case (Cons x ops)
  have "ids_unique (storage_step st x)"
    using Cons.prems by (cases x) (simp_all add: saveRoute_ids_unique deleteRoute_ids_unique)
  then show ?case using Cons.IH by simp
qed

lemma ids_unique_empty: "ids_unique None"
  by (simp add: ids_unique_def getRoutes_def parseStored_def)

text \<open>
  C10. In a store with at most one route per id, saving a route whose id is stored
  replaces that entry in place, the length unchanged; saving a route with a new id appends
  exactly it; deleting removes every route of the id; both keep the ids unique, so after
  any sequence of saves and deletes from the empty store \<open>getRoutes\<close> returns at most one
  route per id.
\<close>

theorem stored_route_ids_unique:
  "(ids_unique st \<and> route_id r \<in> route_id ` set (getRoutes st) \<longrightarrow>
      getRoutes (saveRoute r st) =
        map (\<lambda>x. if route_id x = route_id r then r else x) (getRoutes st) \<and>
      length (getRoutes (saveRoute r st)) = length (getRoutes st) \<and>
      r \<in> set (getRoutes (saveRoute r st))) \<and>
   (route_id r \<notin> route_id ` set (getRoutes st) \<longrightarrow>
      getRoutes (saveRoute r st) = getRoutes st @ [r]) \<and>
   getRoutes (deleteRoute i st) = filter (\<lambda>x. route_id x \<noteq> i) (getRoutes st) \<and>
   (\<forall>x \<in> set (getRoutes (deleteRoute i st)). route_id x \<noteq> i) \<and>
   (ids_unique st \<longrightarrow> ids_unique (saveRoute r st) \<and> ids_unique (deleteRoute i st)) \<and>
   ids_unique (storage_run ops None)"
proof (intro conjI impI ballI)
  assume a: "ids_unique st \<and> route_id r \<in> route_id ` set (getRoutes st)"
  then show "getRoutes (saveRoute r st) =
        map (\<lambda>x. if route_id x = route_id r then r else x) (getRoutes st)"
    by (simp add: saveRoute_replaces)
  from a show "length (getRoutes (saveRoute r st)) = length (getRoutes st)"
    by (simp add: saveRoute_existing)
  from a show "r \<in> set (getRoutes (saveRoute r st))"
    by (simp add: saveRoute_existing)
next
  assume "route_id r \<notin> route_id ` set (getRoutes st)"
  then show "getRoutes (saveRoute r st) = getRoutes st @ [r]"
    by (rule saveRoute_new)
next
  show "getRoutes (deleteRoute i st) = filter (\<lambda>x. route_id x \<noteq> i) (getRoutes st)"
    by (rule deleteRoute_filter)
next
  fix x
  assume "x \<in> set (getRoutes (deleteRoute i st))"
  then show "route_id x \<noteq> i" by (simp add: deleteRoute_filter)
next
  assume "ids_unique st"
  then show "ids_unique (saveRoute r st)" by (rule saveRoute_ids_unique)
next
  assume "ids_unique st"
  then show "ids_unique (deleteRoute i st)" by (rule deleteRoute_ids_unique)
next
  show "ids_unique (storage_run ops None)"
    by (rule storage_run_ids_unique [OF ids_unique_empty])
qed

lemma route_id_example: "route_id (example_route i n) = i"
  by (simp add: example_route_def)

theorem stored_route_ids_unique_witness:
  "ids_unique (Some [example_route ''a'' ''first'', example_route ''b'' ''other'']) \<and>
   route_id (example_route ''a'' ''second'')
     \<in> route_id ` set (getRoutes (Some [example_route ''a'' ''first'', example_route ''b'' ''other''])) \<and>
   getRoutes (saveRoute (example_route ''a'' ''second'')
       (Some [example_route ''a'' ''first'', example_route ''b'' ''other'']))
     = [example_route ''a'' ''second'', example_route ''b'' ''other''] \<and>
   getRoutes (deleteRoute ''a'' (Some [example_route ''a'' ''first'', example_route ''b'' ''other'']))
     = [example_route ''b'' ''other''] \<and>
   ids_unique (storage_run
       [SaveRoute (example_route ''a'' ''first''), SaveRoute (example_route ''b'' ''other''),
        SaveRoute (example_route ''a'' ''second''), DeleteRoute ''b''] None)"
proof -
  let ?st = "Some [example_route ''a'' ''first'', example_route ''b'' ''other'']"
  let ?r = "example_route ''a'' ''second''"
  let ?ops = "[SaveRoute (example_route ''a'' ''first''), SaveRoute (example_route ''b'' ''other''),
        SaveRoute (example_route ''a'' ''second''), DeleteRoute ''b'']"
  have g: "getRoutes ?st = [example_route ''a'' ''first'', example_route ''b'' ''other'']"
    by (simp add: getRoutes_def parseStored_def)
  have u: "ids_unique ?st"
    by (simp add: ids_unique_def g route_id_example)
  have m: "route_id ?r \<in> route_id ` set (getRoutes ?st)"
    by (simp add: g route_id_example)
  note t = stored_route_ids_unique [of ?st ?r "''a''" ?ops]
  from t u m have s: "getRoutes (saveRoute ?r ?st) =
      map (\<lambda>x. if route_id x = route_id ?r then ?r else x) (getRoutes ?st)"
    by blast
  from t have d: "getRoutes (deleteRoute ''a'' ?st) = filter (\<lambda>x. route_id x \<noteq> ''a'') (getRoutes ?st)"
    by blast
  from t have r: "ids_unique (storage_run ?ops None)"
    by blast
  have s': "getRoutes (saveRoute ?r ?st) = [?r, example_route ''b'' ''other'']"
    unfolding s g by (simp add: route_id_example)
  have d': "getRoutes (deleteRoute ''a'' ?st) = [example_route ''b'' ''other'']"
    unfolding d g by (simp add: route_id_example)
  from u m s' d' r show ?thesis by blast
qed

section \<open>Properties of the cycle recorder\<close>

lemma show_nat_Suc_0: "show_nat (Suc 0) = ''1''"
  by (simp add: show_nat.simps digit_char_def)

text \<open>A press in \<open>RED\<close> appends the signal built from the recorded times.\<close>

lemma press_in_red:
  "signalPhase rec = REC_RED \<Longrightarrow>
   handleSignalPress now createdNow uuid userLocation rec =
     rec\<lparr>recordedSignals := recordedSignals rec @
           [\<lparr>sig_id = uuid,
             sig_name = ''Signal #'' @ show_nat (length (recordedSignals rec) + 1),
             location = userLocation,
             cycle =
               \<lparr>greenDuration = (greenEnd (cycleData rec) - greenStart (cycleData rec)) / 1000,
                yellowDuration = configYellowDuration rec,
                redDuration = (now - redStart (cycleData rec)) / 1000,
                totalDuration =
                  (greenEnd (cycleData rec) - greenStart (cycleData rec)) / 1000
                  + configYellowDuration rec
                  + (now - redStart (cycleData rec)) / 1000\<rparr>,
             referenceTimestamp = greenStart (cycleData rec),
             sig_createdAt = createdNow\<rparr>],
         uiPhase := DRIVING, signalPhase := WAITING_GREEN\<rparr>"
  by (simp add: handleSignalPress_def Let_def)

lemma press_not_red_signals:
  "signalPhase rec \<noteq> REC_RED \<Longrightarrow>
   recordedSignals (handleSignalPress now createdNow uuid userLocation rec) = recordedSignals rec"
  by (simp add: handleSignalPress_def)

lemma scenario_result:
  "recorder_run scenario_events recording =
     recording\<lparr>recordedSignals :=
        [\<lparr>sig_id = ''u2'', sig_name = ''Signal #1'',
          location = Some \<lparr>latitude = Fin 35, longitude = Fin 139\<rparr>,
          cycle = \<lparr>greenDuration = 28, yellowDuration = 3, redDuration = 27, totalDuration = 58\<rparr>,
          referenceTimestamp = 0, sig_createdAt = 58000\<rparr>],
       uiPhase := DRIVING, signalPhase := WAITING_GREEN,
       cycleData := \<lparr>greenStart = 0, greenEnd = 28000, redStart = 31000\<rparr>\<rparr>"
  by (simp add: recorder_run_def scenario_events_def recording_def initialRecorder_def
        handleSignalPress_def handleSignalRelease_def yellowTimerFired_def Let_def show_nat_Suc_0)

text \<open>In the scenario the release starts the yellow timer with a delay of 3000 ms.\<close>

lemma scenario_timer_delay:
  "snd (handleSignalRelease 28000 (handleSignalPress 0 0 ''u1'' None recording)) = Some 3000"
  by (simp add: recording_def initialRecorder_def handleSignalPress_def handleSignalRelease_def)

lemma recorder_step_sum:
  assumes "\<forall>s\<in>set (recordedSignals rec). cycle_sum_ok s"
  shows "\<forall>s\<in>set (recordedSignals (recorder_step rec ev)). cycle_sum_ok s"
proof (cases ev)
  case (Press now c u l)
  show ?thesis
  proof (cases "signalPhase rec = REC_RED")
    case True
    then show ?thesis using assms Press
      by (simp add: press_in_red cycle_sum_ok_def)
  next
    case False
    then show ?thesis using assms Press
      by (simp add: press_not_red_signals)
  qed
next
  case (Release now)
  then show ?thesis using assms by (simp add: handleSignalRelease_def)
next
  case (TimerFired now)
  then show ?thesis using assms by (simp add: yellowTimerFired_def)
qed

lemma recorder_run_sum:
  "\<forall>s\<in>set (recordedSignals rec). cycle_sum_ok s \<Longrightarrow>
   \<forall>s\<in>set (recordedSignals (recorder_run evs rec)). cycle_sum_ok s"
  unfolding recorder_run_def
proof (induction evs arbitrary: rec)
  case Nil
  then show ?case by simp
next
  case (Cons ev evs)
  from recorder_step_sum [OF Cons.prems, of ev] show ?case
    using Cons.IH by simp
qed

text \<open>
  C2 as claimed fails: nothing rejects a cycle. With press and release in one millisecond
  and the closing press in the millisecond of the yellow timer, the recorder stores a signal
  whose green and red durations are zero.
\<close>

theorem zero_duration_cycle_recorded:
  "map cycle (recordedSignals (recorder_run zero_green_events recording))
     = [\<lparr>greenDuration = 0, yellowDuration = 3, redDuration = 0, totalDuration = 3\<rparr>] \<and>
   \<not> valid_cycle \<lparr>greenDuration = 0, yellowDuration = 3, redDuration = 0, totalDuration = 3\<rparr>"
  by (simp add: recorder_run_def zero_green_events_def recording_def initialRecorder_def
        handleSignalPress_def handleSignalRelease_def yellowTimerFired_def Let_def
        valid_cycle_def)

text \<open>
  C2, amended. The recorder checks nothing when it builds a cycle. Every signal it records
  has \<open>totalDuration\<close> equal to the sum of the three durations, because the sum is computed
  at construction; each duration is positive exactly when the times it is measured from are
  in order (and the configured yellow value is positive), and the signal is appended either
  way.
\<close>

theorem recorded_cycle_sum_without_validation:
  "(\<forall>s\<in>set (recordedSignals (recorder_run evs initialRecorder)). cycle_sum_ok s) \<and>
   (signalPhase rec = REC_RED \<longrightarrow>
      (let rec' = handleSignalPress now createdNow uuid userLocation rec;
           c = cycle (last (recordedSignals rec'))
       in length (recordedSignals rec') = length (recordedSignals rec) + 1 \<and>
          totalDuration c = greenDuration c + yellowDuration c + redDuration c \<and>
          (0 < greenDuration c \<longleftrightarrow> greenStart (cycleData rec) < greenEnd (cycleData rec)) \<and>
          (0 < yellowDuration c \<longleftrightarrow> 0 < configYellowDuration rec) \<and>
          (0 < redDuration c \<longleftrightarrow> redStart (cycleData rec) < now)))"
proof (intro conjI impI)
  have "\<forall>s\<in>set (recordedSignals initialRecorder). cycle_sum_ok s"
    by (simp add: initialRecorder_def)
  then show "\<forall>s\<in>set (recordedSignals (recorder_run evs initialRecorder)). cycle_sum_ok s"
    by (rule recorder_run_sum)
next
  assume "signalPhase rec = REC_RED"
  then show "let rec' = handleSignalPress now createdNow uuid userLocation rec;
           c = cycle (last (recordedSignals rec'))
       in length (recordedSignals rec') = length (recordedSignals rec) + 1 \<and>
          totalDuration c = greenDuration c + yellowDuration c + redDuration c \<and>
          (0 < greenDuration c \<longleftrightarrow> greenStart (cycleData rec) < greenEnd (cycleData rec)) \<and>
          (0 < yellowDuration c \<longleftrightarrow> 0 < configYellowDuration rec) \<and>
          (0 < redDuration c \<longleftrightarrow> redStart (cycleData rec) < now)"
    by (simp add: press_in_red Let_def)
qed

theorem recorded_cycle_sum_without_validation_witness:
  "signalPhase (recording\<lparr>signalPhase := REC_RED,
       cycleData := \<lparr>greenStart = 1000, greenEnd = 1000, redStart = 4000\<rparr>\<rparr>) = REC_RED \<and>
   \<not> 0 < greenDuration (cycle (last (recordedSignals (handleSignalPress 9000 9000 ''u2'' None
       (recording\<lparr>signalPhase := REC_RED,
          cycleData := \<lparr>greenStart = 1000, greenEnd = 1000, redStart = 4000\<rparr>\<rparr>))))) \<and>
   0 < redDuration (cycle (last (recordedSignals (handleSignalPress 9000 9000 ''u2'' None
       (recording\<lparr>signalPhase := REC_RED,
          cycleData := \<lparr>greenStart = 1000, greenEnd = 1000, redStart = 4000\<rparr>\<rparr>))))) \<and>
   cycle (last (recordedSignals (handleSignalPress 9000 9000 ''u2'' None
       (recording\<lparr>signalPhase := REC_RED,
          cycleData := \<lparr>greenStart = 1000, greenEnd = 1000, redStart = 4000\<rparr>\<rparr>))))
     = \<lparr>greenDuration = 0, yellowDuration = 3, redDuration = 5, totalDuration = 8\<rparr> \<and>
   cycle_sum_ok (last (recordedSignals (recorder_run scenario_events initialRecorder)))"
proof -
  let ?rec = "recording\<lparr>signalPhase := REC_RED,
       cycleData := \<lparr>greenStart = 1000, greenEnd = 1000, redStart = 4000\<rparr>\<rparr>"
  let ?c = "cycle (last (recordedSignals (handleSignalPress 9000 9000 ''u2'' None ?rec)))"
  have red: "signalPhase ?rec = REC_RED" by simp
  note t = recorded_cycle_sum_without_validation
    [of scenario_events ?rec 9000 9000 "''u2''" None]
  from t have inv:
    "\<forall>s\<in>set (recordedSignals (recorder_run scenario_events initialRecorder)). cycle_sum_ok s"
    by (rule conjunct1)
  from t red have
    "(0 < greenDuration ?c \<longleftrightarrow> greenStart (cycleData ?rec) < greenEnd (cycleData ?rec)) \<and>
     (0 < redDuration ?c \<longleftrightarrow> redStart (cycleData ?rec) < 9000)"
    unfolding Let_def by blast
  then have pos: "\<not> 0 < greenDuration ?c \<and> 0 < redDuration ?c"
    by simp
  have c: "?c = \<lparr>greenDuration = 0, yellowDuration = 3, redDuration = 5, totalDuration = 8\<rparr>"
    by (simp add: press_in_red recording_def initialRecorder_def)
  have "recordedSignals (recorder_run scenario_events initialRecorder) \<noteq> []"
    by (simp add: recorder_run_def scenario_events_def initialRecorder_def
          handleSignalPress_def handleSignalRelease_def yellowTimerFired_def Let_def)
  then have "last (recordedSignals (recorder_run scenario_events initialRecorder))
      \<in> set (recordedSignals (recorder_run scenario_events initialRecorder))"
    by (rule last_in_set)
  with inv have ok:
    "cycle_sum_ok (last (recordedSignals (recorder_run scenario_events initialRecorder)))"
    by blast
  from red pos c ok show ?thesis by blast
qed

text \<open>
  C4. A press in \<open>RED\<close> completes the cycle: the signal appended to the recorded signals
  has the green duration \<open>greenEnd - greenStart\<close> and the red duration \<open>now - redStart\<close>, in
  seconds, the configured yellow duration, their sum as total duration, \<open>greenStart\<close> as
  reference timestamp and the current position as location; the machine is back in
  \<open>WAITING_GREEN\<close>. The scenario of the specification gives 28, 3, 27 and 58 seconds,
  anchored at 0.
\<close>

theorem press_in_red_completes_cycle:
  "(signalPhase rec = REC_RED \<longrightarrow>
      (let rec' = handleSignalPress now createdNow uuid userLocation rec;
           sg = last (recordedSignals rec')
       in recordedSignals rec' = recordedSignals rec @ [sg] \<and>
          greenDuration (cycle sg) = (greenEnd (cycleData rec) - greenStart (cycleData rec)) / 1000 \<and>
          redDuration (cycle sg) = (now - redStart (cycleData rec)) / 1000 \<and>
          yellowDuration (cycle sg) = configYellowDuration rec \<and>
          totalDuration (cycle sg) =
            greenDuration (cycle sg) + yellowDuration (cycle sg) + redDuration (cycle sg) \<and>
          referenceTimestamp sg = greenStart (cycleData rec) \<and>
          location sg = userLocation \<and>
          signalPhase rec' = WAITING_GREEN)) \<and>
   map cycle (recordedSignals (recorder_run scenario_events recording))
     = [\<lparr>greenDuration = 28, yellowDuration = 3, redDuration = 27, totalDuration = 58\<rparr>] \<and>
   map referenceTimestamp (recordedSignals (recorder_run scenario_events recording)) = [0] \<and>
   signalPhase (recorder_run scenario_events recording) = WAITING_GREEN"
proof (intro conjI impI)
  assume "signalPhase rec = REC_RED"
  then show "let rec' = handleSignalPress now createdNow uuid userLocation rec;
           sg = last (recordedSignals rec')
       in recordedSignals rec' = recordedSignals rec @ [sg] \<and>
          greenDuration (cycle sg) = (greenEnd (cycleData rec) - greenStart (cycleData rec)) / 1000 \<and>
          redDuration (cycle sg) = (now - redStart (cycleData rec)) / 1000 \<and>
          yellowDuration (cycle sg) = configYellowDuration rec \<and>
          totalDuration (cycle sg) =
            greenDuration (cycle sg) + yellowDuration (cycle sg) + redDuration (cycle sg) \<and>
          referenceTimestamp sg = greenStart (cycleData rec) \<and>
          location sg = userLocation \<and>
          signalPhase rec' = WAITING_GREEN"
    by (simp add: press_in_red Let_def)
next
  show "map cycle (recordedSignals (recorder_run scenario_events recording))
     = [\<lparr>greenDuration = 28, yellowDuration = 3, redDuration = 27, totalDuration = 58\<rparr>]"
    by (simp add: scenario_result)
next
  show "map referenceTimestamp (recordedSignals (recorder_run scenario_events recording)) = [0]"
    by (simp add: scenario_result)
next
  show "signalPhase (recorder_run scenario_events recording) = WAITING_GREEN"
    by (simp add: scenario_result)
qed

theorem press_in_red_completes_cycle_witness:
  "signalPhase (recording\<lparr>signalPhase := REC_RED,
       cycleData := \<lparr>greenStart = 0, greenEnd = 28000, redStart = 31000\<rparr>\<rparr>) = REC_RED \<and>
   recordedSignals (handleSignalPress 58000 58000 ''u2'' (Some \<lparr>latitude = Fin 35, longitude = Fin 139\<rparr>)
       (recording\<lparr>signalPhase := REC_RED,
          cycleData := \<lparr>greenStart = 0, greenEnd = 28000, redStart = 31000\<rparr>\<rparr>))
     = [\<lparr>sig_id = ''u2'', sig_name = ''Signal #1'',
         location = Some \<lparr>latitude = Fin 35, longitude = Fin 139\<rparr>,
         cycle = \<lparr>greenDuration = 28, yellowDuration = 3, redDuration = 27, totalDuration = 58\<rparr>,
         referenceTimestamp = 0, sig_createdAt = 58000\<rparr>] \<and>
   signalPhase (handleSignalPress 58000 58000 ''u2'' (Some \<lparr>latitude = Fin 35, longitude = Fin 139\<rparr>)
       (recording\<lparr>signalPhase := REC_RED,
          cycleData := \<lparr>greenStart = 0, greenEnd = 28000, redStart = 31000\<rparr>\<rparr>)) = WAITING_GREEN"
proof -
  let ?rec = "recording\<lparr>signalPhase := REC_RED,
       cycleData := \<lparr>greenStart = 0, greenEnd = 28000, redStart = 31000\<rparr>\<rparr>"
  let ?rec' = "handleSignalPress 58000 58000 ''u2'' (Some \<lparr>latitude = Fin 35, longitude = Fin 139\<rparr>) ?rec"
  have red: "signalPhase ?rec = REC_RED" by simp
  note t = press_in_red_completes_cycle
    [of ?rec 58000 58000 "''u2''" "Some \<lparr>latitude = Fin 35, longitude = Fin 139\<rparr>"]
  from t red have w: "signalPhase ?rec' = WAITING_GREEN"
    unfolding Let_def by blast
  have r: "recordedSignals ?rec' =
      [\<lparr>sig_id = ''u2'', sig_name = ''Signal #1'',
         location = Some \<lparr>latitude = Fin 35, longitude = Fin 139\<rparr>,
         cycle = \<lparr>greenDuration = 28, yellowDuration = 3, redDuration = 27, totalDuration = 58\<rparr>,
         referenceTimestamp = 0, sig_createdAt = 58000\<rparr>]"
    by (simp add: press_in_red recording_def initialRecorder_def show_nat_Suc_0)
  from red r w show ?thesis by blast
qed

text \<open>
  C8. A gesture that the current state does not expect changes nothing: a release in
  \<open>RED\<close>, \<open>WAITING_GREEN\<close> or \<open>YELLOW\<close> returns the recorder as it is and starts no timer,
  and a press in \<open>GREEN\<close> or \<open>YELLOW\<close> returns the recorder as it is.
\<close>

theorem invalid_gesture_is_noop:
  "(signalPhase rec = REC_RED \<or> signalPhase rec = WAITING_GREEN \<or> signalPhase rec = REC_YELLOW
      \<longrightarrow> handleSignalRelease now rec = (rec, None)) \<and>
   (signalPhase rec = REC_GREEN \<or> signalPhase rec = REC_YELLOW
      \<longrightarrow> handleSignalPress now createdNow uuid userLocation rec = rec)"
  by (auto simp: handleSignalRelease_def handleSignalPress_def)

theorem invalid_gesture_is_noop_witness:
  "signalPhase (recording\<lparr>signalPhase := REC_YELLOW,
       cycleData := \<lparr>greenStart = 0, greenEnd = 28000, redStart = 0\<rparr>\<rparr>) = REC_YELLOW \<and>
   handleSignalRelease 29000 (recording\<lparr>signalPhase := REC_YELLOW,
       cycleData := \<lparr>greenStart = 0, greenEnd = 28000, redStart = 0\<rparr>\<rparr>)
     = (recording\<lparr>signalPhase := REC_YELLOW,
       cycleData := \<lparr>greenStart = 0, greenEnd = 28000, redStart = 0\<rparr>\<rparr>, None) \<and>
   handleSignalPress 29000 29000 ''u3'' None (recording\<lparr>signalPhase := REC_YELLOW,
       cycleData := \<lparr>greenStart = 0, greenEnd = 28000, redStart = 0\<rparr>\<rparr>)
     = recording\<lparr>signalPhase := REC_YELLOW,
       cycleData := \<lparr>greenStart = 0, greenEnd = 28000, redStart = 0\<rparr>\<rparr>"
proof -
  let ?rec = "recording\<lparr>signalPhase := REC_YELLOW,
       cycleData := \<lparr>greenStart = 0, greenEnd = 28000, redStart = 0\<rparr>\<rparr>"
  have y: "signalPhase ?rec = REC_YELLOW" by simp
  note t = invalid_gesture_is_noop [of ?rec 29000 29000 "''u3''" None]
  from t y have 1: "handleSignalRelease 29000 ?rec = (?rec, None)" by blast
  from t y have 2: "handleSignalPress 29000 29000 ''u3'' None ?rec = ?rec" by blast
  from y 1 2 show ?thesis by blast
qed

section \<open>Properties of GeoMath\<close>

lemma haversine_a_sym: "haversine_a la1 lo1 la2 lo2 = haversine_a la2 lo2 la1 lo1"
proof -
  have 1: "(la1 - la2) * pi / 180 / 2 = - ((la2 - la1) * pi / 180 / 2)"
    by (simp add: field_simps)
  have 2: "(lo1 - lo2) * pi / 180 / 2 = - ((lo2 - lo1) * pi / 180 / 2)"
    by (simp add: field_simps)
  show ?thesis
    unfolding haversine_a_def Let_def 1 2 sin_minus by (simp add: mult.commute)
qed

lemma sin_sq_le_one: "sin (v::real) * sin v \<le> 1"
proof -
  have "(sin v)\<^sup>2 + (cos v)\<^sup>2 = 1" by (rule sin_cos_squared_add)
  moreover have "0 \<le> (cos v)\<^sup>2" by (rule zero_le_power2)
  ultimately have "(sin v)\<^sup>2 \<le> 1" by argo
  then show ?thesis by (simp only: power2_eq_square)
qed

lemma half_sum_lower:
  fixes k d c s :: real
  shows "k = (d + c) / 2 \<Longrightarrow> d = 1 - 2 * s \<Longrightarrow> - 1 \<le> c \<Longrightarrow> - s \<le> k"
  by argo

lemma half_sum_upper:
  fixes k d c s :: real
  shows "k = (d + c) / 2 \<Longrightarrow> d = 1 - 2 * s \<Longrightarrow> c \<le> 1 \<Longrightarrow> k \<le> 1 - s"
  by argo

text \<open>
  Without rounding the haversine term lies in \<open>[0, 1]\<close> for all latitudes and
  longitudes, from \<open>cos x cos y = (cos (y - x) + cos (x + y)) / 2\<close> and
  \<open>cos (y - x) = 1 - 2 sin\<^sup>2 ((y - x) / 2)\<close>.
\<close>

lemma haversine_bounds:
  fixes x y u :: real
  defines "s2 \<equiv> sin ((y - x) / 2) * sin ((y - x) / 2)"
  defines "t2 \<equiv> sin u * sin u"
  shows "0 \<le> s2 + cos x * cos y * sin u * sin u \<and> s2 + cos x * cos y * sin u * sin u \<le> 1"
proof -
  have P: "cos x * cos y = (cos (y - x) + cos (x + y)) / 2"
    by (simp add: cos_add cos_diff)
  have D: "cos (y - x) = 1 - 2 * s2"
  proof -
    have "cos (2 * ((y - x) / 2)) = 1 - 2 * (sin ((y - x) / 2))\<^sup>2"
      by (rule cos_double_sin)
    moreover have "2 * ((y - x) / 2) = y - x" by simp
    ultimately show ?thesis by (simp only: s2_def power2_eq_square)
  qed
  have K1: "- s2 \<le> cos x * cos y"
    by (rule half_sum_lower [OF P D cos_ge_minus_one])
  have K2: "cos x * cos y \<le> 1 - s2"
    by (rule half_sum_upper [OF P D cos_le_one])
  have t0: "0 \<le> t2" by (simp add: t2_def)
  have t1: "t2 \<le> 1"
    unfolding t2_def by (rule sin_sq_le_one)
  have s0: "0 \<le> s2" by (simp add: s2_def)
  have s1: "s2 \<le> 1"
    unfolding s2_def by (rule sin_sq_le_one)
  have L1: "- s2 * t2 \<le> cos x * cos y * t2"
    using K1 t0 by (rule mult_right_mono)
  have L2: "s2 * t2 \<le> s2 * 1"
    using t1 s0 by (rule mult_left_mono)
  have U1: "cos x * cos y * t2 \<le> (1 - s2) * t2"
    using K2 t0 by (rule mult_right_mono)
  have U2: "(1 - s2) * t2 \<le> (1 - s2) * 1"
    using t1 s1 by (intro mult_left_mono) simp_all
  have A: "cos x * cos y * sin u * sin u = cos x * cos y * t2"
    by (simp add: t2_def mult.assoc)
  show ?thesis unfolding A using L1 L2 U1 U2 by simp
qed

lemma haversine_a_range:
  "0 \<le> haversine_a la1 lo1 la2 lo2 \<and> haversine_a la1 lo1 la2 lo2 \<le> 1"
proof -
  have e: "(la2 - la1) * pi / 180 = la2 * pi / 180 - la1 * pi / 180"
    by (simp add: field_simps)
  show ?thesis
    unfolding haversine_a_def Let_def e
    by (rule haversine_bounds)
qed

lemma haversine_a_same: "haversine_a la lo la lo = 0"
  by (simp add: haversine_a_def)

text \<open>Without rounding the distance is symmetric, and zero from a point to itself.\<close>

lemma exact_distance_symmetric_zero:
  "exact_distance la1 lo1 la2 lo2 = exact_distance la2 lo2 la1 lo1 \<and>
   exact_distance la lo la lo = 0"
  by (simp add: exact_distance_def haversine_a_same atan2_def
        haversine_a_sym [of la1 lo1 la2 lo2])

text \<open>In the arithmetic without rounding, the code computes these.\<close>

lemma haversineTerm_exact:
  "haversineTerm exact_arith \<lparr>latitude = Fin la1, longitude = Fin lo1\<rparr>
     \<lparr>latitude = Fin la2, longitude = Fin lo2\<rparr> = Fin (haversine_a la1 lo1 la2 lo2)"
  by (simp add: haversineTerm_def exact_arith_def exact_sub_def haversine_a_def Let_def)

lemma calculateDistance_exact:
  "calculateDistance exact_arith \<lparr>latitude = Fin la1, longitude = Fin lo1\<rparr>
     \<lparr>latitude = Fin la2, longitude = Fin lo2\<rparr> = Fin (exact_distance la1 lo1 la2 lo2)"
proof -
  have r0: "\<not> haversine_a la1 lo1 la2 lo2 < 0"
    using haversine_a_range [of la1 lo1 la2 lo2] by simp
  have r1: "\<not> 1 - haversine_a la1 lo1 la2 lo2 < 0"
    using haversine_a_range [of la1 lo1 la2 lo2] by simp
  have t: "d_sqrt exact_arith = exact_sqrt" "d_sub exact_arith = exact_sub"
    "d_mul exact_arith = exact_mul" "d_atan2 exact_arith = exact_atan2"
    by (simp_all add: exact_arith_def)
  show ?thesis
    unfolding calculateDistance_def haversineTerm_exact Let_def t exact_distance_def
    using r0 r1 by (simp add: exact_sub_def)
qed

text \<open>A position without coordinates has no distance, in any order.\<close>

lemma calculateDistance_unread:
  "calculateDistance exact_arith \<lparr>latitude = NaN, longitude = NaN\<rparr> loc = NaN"
  by (cases "latitude loc"; cases "longitude loc")
     (simp_all add: calculateDistance_def haversineTerm_def exact_arith_def exact_sub_def Let_def)

text \<open>
  A term above 1 has no second root: the distance is \<open>NaN\<close>, in every arithmetic that
  subtracts a number just above 1 from 1 without error, has no root of a negative number
  and hands \<open>NaN\<close> on, as the doubles do. \<open>NaN\<close> is not equal to itself.
\<close>

lemma calculateDistance_term_above_one:
  assumes "haversineTerm D coord1 coord2 = Fin a" and "1 < a"
    and "d_sub D (Fin 1) (Fin a) = Fin (1 - a)"
    and "\<And>x. x < 0 \<Longrightarrow> d_sqrt D (Fin x) = NaN"
    and "\<And>v. d_atan2 D v NaN = NaN"
    and "\<And>v. d_mul D v NaN = NaN"
  shows "calculateDistance D coord1 coord2 = NaN \<and>
         \<not> n_eq (calculateDistance D coord1 coord2) (calculateDistance D coord2 coord1)"
proof -
  have "d_sqrt D (Fin (1 - a)) = NaN" using assms(2) by (intro assms(4)) simp
  then have "calculateDistance D coord1 coord2 = NaN"
    by (simp add: calculateDistance_def assms(1,3,5,6))
  then show ?thesis by simp
qed

text \<open>
  Without rounding the term of the points \<open>(-12, 0)\<close> and \<open>(12, -180)\<close>, which lie
  opposite each other on the globe, is exactly 1: the edge of what the second root
  accepts.
\<close>

lemma antipodal_term_is_one:
  "haversine_a (- 12) 0 12 (- 180) = 1 \<and> haversine_a 12 (- 180) (- 12) 0 = 1"
proof -
  have s: "sin (pi / 15) * sin (pi / 15) + cos (pi / 15) * cos (pi / 15) = 1"
    using sin_cos_squared_add [of "pi / 15"] by (simp add: power2_eq_square)
  have "haversine_a (- 12) 0 12 (- 180) = 1"
    using s by (simp add: haversine_a_def)
  then show ?thesis by (simp add: haversine_a_sym [of 12 "- 180" "- 12" 0])
qed

section \<open>Properties of the navigation tick\<close>

lemma n_lt_irrefl: "\<not> n_lt a a"
  by (cases a) simp_all

lemma n_lt_trans: "n_lt a b \<Longrightarrow> n_lt b c \<Longrightarrow> n_lt a c"
  by (cases a; cases b; cases c) simp_all

lemma n_lt_asym: "n_lt a b \<Longrightarrow> \<not> n_lt b a"
  by (cases a; cases b) simp_all

lemma n_lt_not_nan: "n_lt a b \<Longrightarrow> a \<noteq> NaN \<and> b \<noteq> NaN"
  by (cases a; cases b) simp_all

text \<open>Two numbers, neither less than the other, are below the same bounds.\<close>

lemma n_lt_below:
  "n_lt a c \<Longrightarrow> \<not> n_lt a b \<Longrightarrow> b \<noteq> NaN \<Longrightarrow> n_lt b c"
  by (cases a; cases b; cases c) simp_all

text \<open>Without a \<open>null\<close> location the scan returns.\<close>

lemma nearestScan_total:
  "\<forall>s\<in>set sigs. location s \<noteq> None \<Longrightarrow> \<exists>d sg. nearestScan D u sigs (m0, s0) = Some (d, sg)"
proof (induction sigs arbitrary: m0 s0)
  case Nil
  then show ?case by simp
next
  case (Cons x xs)
  from Cons.prems obtain loc where loc: "location x = Some loc" by auto
  from Cons.prems have rest: "\<forall>s\<in>set xs. location s \<noteq> None" by simp
  show ?case
    using Cons.IH [OF rest] loc by (simp add: Let_def)
qed

text \<open>
  The scan returns its start value when no distance is below it, and otherwise a signal
  at a least distance.
\<close>

lemma nearestScan_result:
  assumes "nearestScan D u sigs (m0, s0) = Some (d, sg)"
  shows "(d = m0 \<and> sg = s0 \<and>
          (\<forall>s\<in>set sigs. \<forall>loc. location s = Some loc \<longrightarrow> \<not> n_lt (calculateDistance D u loc) m0)) \<or>
         (sg \<in> set sigs \<and> n_lt d m0 \<and>
          (\<exists>loc. location sg = Some loc \<and> d = calculateDistance D u loc) \<and>
          (\<forall>s\<in>set sigs. \<forall>loc. location s = Some loc \<longrightarrow> \<not> n_lt (calculateDistance D u loc) d))"
  using assms
proof (induction sigs arbitrary: m0 s0)
  case Nil
  then show ?case by simp
next
  case (Cons x xs)
  from Cons.prems obtain lx where lx: "location x = Some lx"
    by (cases "location x") simp_all
  let ?dx = "calculateDistance D u lx"
  show ?case
  proof (cases "n_lt ?dx m0")
    case True
    with Cons.prems lx have scan: "nearestScan D u xs (?dx, x) = Some (d, sg)"
      by (simp add: Let_def)
    from Cons.IH [OF scan] show ?thesis
    proof
      assume a: "d = ?dx \<and> sg = x \<and>
          (\<forall>s\<in>set xs. \<forall>loc. location s = Some loc \<longrightarrow> \<not> n_lt (calculateDistance D u loc) ?dx)"
      then have "\<forall>s\<in>set (x # xs). \<forall>loc. location s = Some loc \<longrightarrow>
          \<not> n_lt (calculateDistance D u loc) d"
        using lx by (auto simp: n_lt_irrefl)
      with a True lx show ?thesis by auto
    next
      assume b: "sg \<in> set xs \<and> n_lt d ?dx \<and>
          (\<exists>loc. location sg = Some loc \<and> d = calculateDistance D u loc) \<and>
          (\<forall>s\<in>set xs. \<forall>loc. location s = Some loc \<longrightarrow> \<not> n_lt (calculateDistance D u loc) d)"
      then have lt: "n_lt d m0" using True by (blast intro: n_lt_trans)
      from b have "\<not> n_lt ?dx d" by (blast dest: n_lt_asym)
      with b lx have "\<forall>s\<in>set (x # xs). \<forall>loc. location s = Some loc \<longrightarrow>
          \<not> n_lt (calculateDistance D u loc) d"
        by auto
      with b lt show ?thesis by auto
    qed
  next
    case False
    with Cons.prems lx have scan: "nearestScan D u xs (m0, s0) = Some (d, sg)"
      by (simp add: Let_def)
    from Cons.IH [OF scan] show ?thesis
    proof
      assume a: "d = m0 \<and> sg = s0 \<and>
          (\<forall>s\<in>set xs. \<forall>loc. location s = Some loc \<longrightarrow> \<not> n_lt (calculateDistance D u loc) m0)"
      with False lx show ?thesis by auto
    next
      assume b: "sg \<in> set xs \<and> n_lt d m0 \<and>
          (\<exists>loc. location sg = Some loc \<and> d = calculateDistance D u loc) \<and>
          (\<forall>s\<in>set xs. \<forall>loc. location s = Some loc \<longrightarrow> \<not> n_lt (calculateDistance D u loc) d)"
      have "\<not> n_lt ?dx d"
      proof
        assume "n_lt ?dx d"
        with b have "n_lt ?dx m0" by (blast intro: n_lt_trans)
        with False show False by simp
      qed
      with b lx have "\<forall>s\<in>set (x # xs). \<forall>loc. location s = Some loc \<longrightarrow>
          \<not> n_lt (calculateDistance D u loc) d"
        by auto
      with b show ?thesis by auto
    qed
  qed
qed

lemma nearestScan_target:
  assumes "nearestScan D u (s0 # rest) (PInf, s0) = Some (d, sg)"
  shows "tick_target D u (s0 # rest) d sg \<and> d \<noteq> NaN"
proof -
  from nearestScan_result [OF assms] show ?thesis
  proof
    assume "d = PInf \<and> sg = s0 \<and>
      (\<forall>s\<in>set (s0 # rest). \<forall>loc. location s = Some loc \<longrightarrow> \<not> n_lt (calculateDistance D u loc) PInf)"
    then show ?thesis
      by (simp add: tick_target_def none_in_reach_def)
  next
    assume b: "sg \<in> set (s0 # rest) \<and> n_lt d PInf \<and>
      (\<exists>loc. location sg = Some loc \<and> d = calculateDistance D u loc) \<and>
      (\<forall>s\<in>set (s0 # rest). \<forall>loc. location s = Some loc \<longrightarrow> \<not> n_lt (calculateDistance D u loc) d)"
    then have "nearest_signal D u (s0 # rest) d sg"
      unfolding nearest_signal_def by blast
    moreover from b have "d \<noteq> NaN" by (blast dest: n_lt_not_nan)
    ultimately show ?thesis by (simp add: tick_target_def)
  qed
qed

text \<open>
  With a route, a last position and no \<open>null\<close> location the tick updates the state, from
  the distance and the phase of its target.
\<close>

lemma tick_characterisation:
  assumes "route = Some r" and "lastPosition = Some lp" and "signals r \<noteq> []"
    and "\<forall>s\<in>set (signals r). location s \<noteq> None"
  obtains d sg phase timeToChange "next" where
    "tick_target D (userLocOf lp) (signals r) d sg" and "d \<noteq> NaN" and
    "phasePredictor sg now = (phase, timeToChange, next)" and
    "updateNavigationLogic D route lastPosition navState now prev =
       Update (prev
         \<lparr>distanceToSignal := d,
          etaSeconds := etaOf D navState d,
          currentPhase := phase,
          timeToPhaseChange := of_nan timeToChange,
          recommendedAction :=
            fst (recommend D d (etaOf D navState d) phase (of_nan timeToChange)),
          targetSpeedKmh :=
            snd (recommend D d (etaOf D navState d) phase (of_nan timeToChange)),
          nextPhase := next\<rparr>)"
proof -
  from assms(3) obtain s0 rest where sigs: "signals r = s0 # rest"
    by (cases "signals r") simp_all
  from nearestScan_total [OF assms(4)] obtain d sg where
    scan: "nearestScan D (userLocOf lp) (signals r) (PInf, s0) = Some (d, sg)"
    by blast
  from scan sigs have t: "tick_target D (userLocOf lp) (signals r) d sg \<and> d \<noteq> NaN"
    using nearestScan_target [of D "userLocOf lp" s0 rest d sg] by simp
  obtain phase timeToChange "next" where
    pp: "phasePredictor sg now = (phase, timeToChange, next)"
    by (cases "phasePredictor sg now")
  have "updateNavigationLogic D route lastPosition navState now prev =
       Update (prev
         \<lparr>distanceToSignal := d,
          etaSeconds := etaOf D navState d,
          currentPhase := phase,
          timeToPhaseChange := of_nan timeToChange,
          recommendedAction :=
            fst (recommend D d (etaOf D navState d) phase (of_nan timeToChange)),
          targetSpeedKmh :=
            snd (recommend D d (etaOf D navState d) phase (of_nan timeToChange)),
          nextPhase := next\<rparr>)"
    using assms(1,2) sigs scan pp
    by (simp add: updateNavigationLogic_def Let_def split: prod.splits)
  with t pp show thesis by (blast intro: that)
qed

text \<open>
  The other outcomes of a tick: nothing happens without a route, a signal or a last
  position, and a \<open>null\<close> location anywhere in the list ends the tick with a
  \<open>TypeError\<close>.
\<close>

lemma nearestScan_null:
  "s \<in> set sigs \<Longrightarrow> location s = None \<Longrightarrow> nearestScan D u sigs (m0, s0) = None"
proof (induction sigs arbitrary: m0 s0)
  case Nil
  then show ?case by simp
next
  case (Cons x xs)
  show ?case
  proof (cases "location x")
    case None
    then show ?thesis by simp
  next
    case (Some loc)
    with Cons.prems have "s \<in> set xs" by auto
    from Cons.IH [OF this Cons.prems(2)] Some show ?thesis
      by (simp add: Let_def)
  qed
qed

lemma tick_no_update:
  "updateNavigationLogic D None lastPosition navState now prev = NoUpdate"
  "signals r = [] \<Longrightarrow> updateNavigationLogic D (Some r) lastPosition navState now prev = NoUpdate"
  "updateNavigationLogic D route None navState now prev = NoUpdate"
  by (simp_all add: updateNavigationLogic_def split: option.splits list.splits)

lemma tick_type_error:
  assumes "s \<in> set (signals r)" and "location s = None"
  shows "updateNavigationLogic D (Some r) (Some lp) navState now prev = TypeError"
proof -
  from assms(1) obtain s0 rest where sigs: "signals r = s0 # rest"
    by (cases "signals r") auto
  from nearestScan_null [OF assms, of D "userLocOf lp" PInf s0] sigs show ?thesis
    by (simp add: updateNavigationLogic_def)
qed




text \<open>The distances of the examples, in the arithmetic without rounding.\<close>

lemma distance_at_signal:
  "calculateDistance exact_arith (userLocOf at_signal) \<lparr>latitude = Fin 0, longitude = Fin 0\<rparr>
     = Fin 0"
  by (simp add: userLocOf_def at_signal_def calculateDistance_exact exact_distance_symmetric_zero)


lemma distance_unread:
  "calculateDistance exact_arith (userLocOf unread_position) loc = NaN"
  by (simp add: userLocOf_def unread_position_def calculateDistance_unread)

lemma example_signal_location:
  "location (example_signal T) = Some \<lparr>latitude = Fin 0, longitude = Fin 0\<rparr>"
  by (simp add: example_signal_def)

lemma example_nav_route_signals: "signals example_nav_route = [example_signal 0]"
  by (simp add: example_nav_route_def)

text \<open>The ETA of the examples: 15 m/s for the moving state, the sentinel at rest.\<close>

lemma etaOf_moving: "etaOf exact_arith movingNavState (Fin x) = Fin (x / 15)"
  by (simp add: etaOf_def movingNavState_def initialNavState_def exact_arith_def)

lemma etaOf_initial: "etaOf exact_arith initialNavState d = Fin 999"
  by (simp add: etaOf_def initialNavState_def exact_arith_def)


text \<open>
  The tick after a position without coordinates: no distance is a number, and the state
  gets the distance \<open>Infinity\<close> and the phase of the first signal.
\<close>

lemma tick_unread_position:
  "updateNavigationLogic exact_arith (Some example_nav_route) (Some unread_position)
     movingNavState 60000 movingNavState
   = Update (movingNavState\<lparr>distanceToSignal := PInf, etaSeconds := PInf,
        currentPhase := GREEN, timeToPhaseChange := Fin 30, recommendedAction := DECELERATE,
        targetSpeedKmh := None, nextPhase := YELLOW\<rparr>)"
proof -
  have e: "etaOf exact_arith movingNavState PInf = PInf"
    by (simp add: etaOf_def movingNavState_def initialNavState_def exact_arith_def)
  show ?thesis
    by (simp add: updateNavigationLogic_def example_nav_route_signals example_signal_location
        distance_unread e phasePredictor_examples [of 0, simplified] recommend_def of_nan_def)
qed

text \<open>
  C5. In a tick with a signal less than 20 meters away, the state is updated with the
  distance and the phase of a nearest signal, the recommended action is STOP when that
  phase is RED and MAINTAIN otherwise, and no target speed is produced, whatever the
  speed and the ETA.
\<close>

theorem arrival_zone:
  assumes "route = Some r" and "lastPosition = Some lp"
    and "\<forall>s\<in>set (signals r). location s \<noteq> None"
    and "s \<in> set (signals r)" and "location s = Some loc"
    and "n_lt (calculateDistance D (userLocOf lp) loc) (Fin 20)"
  shows "\<exists>d sg. nearest_signal D (userLocOf lp) (signals r) d sg \<and> n_lt d (Fin 20) \<and>
           (case phasePredictor sg now of (phase, timeToChange, next) \<Rightarrow>
              updateNavigationLogic D route lastPosition navState now prev =
                Update (prev
                  \<lparr>distanceToSignal := d,
                   etaSeconds := etaOf D navState d,
                   currentPhase := phase,
                   timeToPhaseChange := of_nan timeToChange,
                   recommendedAction := (if phase = RED then STOP else MAINTAIN),
                   targetSpeedKmh := None,
                   nextPhase := next\<rparr>))"
proof -
  let ?u = "userLocOf lp"
  from assms(4) have ne: "signals r \<noteq> []" by auto
  from tick_characterisation [OF assms(1,2) ne assms(3),
    where D = D and now = now and navState = navState and prev = prev]
  obtain d sg phase timeToChange "next" where
    tt: "tick_target D ?u (signals r) d sg" and nn: "d \<noteq> NaN" and
    pp: "phasePredictor sg now = (phase, timeToChange, next)" and
    up: "updateNavigationLogic D route lastPosition navState now prev =
       Update (prev
         \<lparr>distanceToSignal := d,
          etaSeconds := etaOf D navState d,
          currentPhase := phase,
          timeToPhaseChange := of_nan timeToChange,
          recommendedAction :=
            fst (recommend D d (etaOf D navState d) phase (of_nan timeToChange)),
          targetSpeedKmh :=
            snd (recommend D d (etaOf D navState d) phase (of_nan timeToChange)),
          nextPhase := next\<rparr>)" .
  have "n_lt (Fin 20) PInf" by simp
  with assms(6) have reach: "n_lt (calculateDistance D ?u loc) PInf"
    by (rule n_lt_trans)
  have near: "nearest_signal D ?u (signals r) d sg"
  proof (rule ccontr)
    assume "\<not> nearest_signal D ?u (signals r) d sg"
    with tt have "none_in_reach D ?u (signals r)" by (simp add: tick_target_def)
    with assms(4,5) have "\<not> n_lt (calculateDistance D ?u loc) PInf"
      by (simp add: none_in_reach_def)
    with reach show False by simp
  qed
  then have "\<not> n_lt (calculateDistance D ?u loc) d"
    using assms(4,5) by (simp add: nearest_signal_def)
  with assms(6) have close: "n_lt d (Fin 20)" using nn by (rule n_lt_below)
  from close have rec: "recommend D d (etaOf D navState d) phase (of_nan timeToChange)
      = ((if phase = RED then STOP else MAINTAIN), None)"
    by (simp add: recommend_def)
  show ?thesis
  proof (intro exI conjI)
    show "nearest_signal D ?u (signals r) d sg" by (rule near)
    show "n_lt d (Fin 20)" by (rule close)
    show "case phasePredictor sg now of (phase, timeToChange, next) \<Rightarrow>
              updateNavigationLogic D route lastPosition navState now prev =
                Update (prev
                  \<lparr>distanceToSignal := d,
                   etaSeconds := etaOf D navState d,
                   currentPhase := phase,
                   timeToPhaseChange := of_nan timeToChange,
                   recommendedAction := (if phase = RED then STOP else MAINTAIN),
                   targetSpeedKmh := None,
                   nextPhase := next\<rparr>)"
      using up by (simp add: pp rec)
  qed
qed

lemma nearest_signal_single:
  assumes "nearest_signal D u [s] d sg" and "location s = Some loc"
  shows "sg = s \<and> d = calculateDistance D u loc"
  using assms by (auto simp: nearest_signal_def)

theorem arrival_zone_witness:
  "n_lt (calculateDistance exact_arith (userLocOf at_signal)
       \<lparr>latitude = Fin 0, longitude = Fin 0\<rparr>) (Fin 20) \<and>
   updateNavigationLogic exact_arith (Some example_nav_route) (Some at_signal)
       initialNavState 33000 movingNavState
     = Update (movingNavState\<lparr>distanceToSignal := Fin 0, etaSeconds := Fin 999,
         currentPhase := RED, timeToPhaseChange := Fin 27, recommendedAction := STOP,
         targetSpeedKmh := None, nextPhase := GREEN\<rparr>) \<and>
   updateNavigationLogic exact_arith (Some example_nav_route) (Some at_signal)
       movingNavState 60000 movingNavState
     = Update (movingNavState\<lparr>distanceToSignal := Fin 0, etaSeconds := Fin 0,
         currentPhase := GREEN, timeToPhaseChange := Fin 30, recommendedAction := MAINTAIN,
         targetSpeedKmh := None, nextPhase := YELLOW\<rparr>)"
proof -
  let ?loc = "\<lparr>latitude = Fin 0, longitude = Fin 0\<rparr>"
  have locs: "\<forall>s\<in>set (signals example_nav_route). location s \<noteq> None"
    by (simp add: example_nav_route_signals example_signal_location)
  have mem: "example_signal 0 \<in> set (signals example_nav_route)"
    by (simp add: example_nav_route_signals)
  have close: "n_lt (calculateDistance exact_arith (userLocOf at_signal) ?loc) (Fin 20)"
    by (simp add: distance_at_signal)
  note t = arrival_zone [OF refl refl locs mem example_signal_location close]
  have red: "updateNavigationLogic exact_arith (Some example_nav_route) (Some at_signal)
       initialNavState 33000 movingNavState
     = Update (movingNavState\<lparr>distanceToSignal := Fin 0, etaSeconds := Fin 999,
         currentPhase := RED, timeToPhaseChange := Fin 27, recommendedAction := STOP,
         targetSpeedKmh := None, nextPhase := GREEN\<rparr>)"
  proof -
    from t [where now = 33000 and navState = initialNavState and prev = movingNavState] obtain d where
      "\<exists>sg. nearest_signal exact_arith (userLocOf at_signal) (signals example_nav_route) d sg \<and>
          n_lt d (Fin 20) \<and>
          (case phasePredictor sg 33000 of (phase, timeToChange, next) \<Rightarrow>
              updateNavigationLogic exact_arith (Some example_nav_route) (Some at_signal)
                  initialNavState 33000 movingNavState =
                Update (movingNavState
                  \<lparr>distanceToSignal := d,
                   etaSeconds := etaOf exact_arith initialNavState d,
                   currentPhase := phase,
                   timeToPhaseChange := of_nan timeToChange,
                   recommendedAction := (if phase = RED then STOP else MAINTAIN),
                   targetSpeedKmh := None,
                   nextPhase := next\<rparr>))" ..
    then obtain sg where
      a: "nearest_signal exact_arith (userLocOf at_signal) (signals example_nav_route) d sg \<and>
          n_lt d (Fin 20) \<and>
          (case phasePredictor sg 33000 of (phase, timeToChange, next) \<Rightarrow>
              updateNavigationLogic exact_arith (Some example_nav_route) (Some at_signal)
                  initialNavState 33000 movingNavState =
                Update (movingNavState
                  \<lparr>distanceToSignal := d,
                   etaSeconds := etaOf exact_arith initialNavState d,
                   currentPhase := phase,
                   timeToPhaseChange := of_nan timeToChange,
                   recommendedAction := (if phase = RED then STOP else MAINTAIN),
                   targetSpeedKmh := None,
                   nextPhase := next\<rparr>))" ..
    from a have "sg = example_signal 0 \<and> d = Fin 0"
      using nearest_signal_single [of exact_arith "userLocOf at_signal" "example_signal 0" d sg ?loc]
      by (simp add: example_nav_route_signals example_signal_location distance_at_signal)
    with a show ?thesis
      by (simp add: phasePredictor_examples [of 0, simplified] etaOf_initial of_nan_def)
  qed
  have green: "updateNavigationLogic exact_arith (Some example_nav_route) (Some at_signal)
       movingNavState 60000 movingNavState
     = Update (movingNavState\<lparr>distanceToSignal := Fin 0, etaSeconds := Fin 0,
         currentPhase := GREEN, timeToPhaseChange := Fin 30, recommendedAction := MAINTAIN,
         targetSpeedKmh := None, nextPhase := YELLOW\<rparr>)"
  proof -
    from t [where now = 60000 and navState = movingNavState and prev = movingNavState] obtain d where
      "\<exists>sg. nearest_signal exact_arith (userLocOf at_signal) (signals example_nav_route) d sg \<and>
          n_lt d (Fin 20) \<and>
          (case phasePredictor sg 60000 of (phase, timeToChange, next) \<Rightarrow>
              updateNavigationLogic exact_arith (Some example_nav_route) (Some at_signal)
                  movingNavState 60000 movingNavState =
                Update (movingNavState
                  \<lparr>distanceToSignal := d,
                   etaSeconds := etaOf exact_arith movingNavState d,
                   currentPhase := phase,
                   timeToPhaseChange := of_nan timeToChange,
                   recommendedAction := (if phase = RED then STOP else MAINTAIN),
                   targetSpeedKmh := None,
                   nextPhase := next\<rparr>))" ..
    then obtain sg where
      a: "nearest_signal exact_arith (userLocOf at_signal) (signals example_nav_route) d sg \<and>
          n_lt d (Fin 20) \<and>
          (case phasePredictor sg 60000 of (phase, timeToChange, next) \<Rightarrow>
              updateNavigationLogic exact_arith (Some example_nav_route) (Some at_signal)
                  movingNavState 60000 movingNavState =
                Update (movingNavState
                  \<lparr>distanceToSignal := d,
                   etaSeconds := etaOf exact_arith movingNavState d,
                   currentPhase := phase,
                   timeToPhaseChange := of_nan timeToChange,
                   recommendedAction := (if phase = RED then STOP else MAINTAIN),
                   targetSpeedKmh := None,
                   nextPhase := next\<rparr>))" ..
    from a have "sg = example_signal 0 \<and> d = Fin 0"
      using nearest_signal_single [of exact_arith "userLocOf at_signal" "example_signal 0" d sg ?loc]
      by (simp add: example_nav_route_signals example_signal_location distance_at_signal)
    with a show ?thesis
      by (simp add: phasePredictor_examples [of 0, simplified] etaOf_moving of_nan_def)
  qed
  from close red green show ?thesis by simp
qed







end
